theory Spec2Isabelle
  imports Complex_Main
begin

section \<open>Data model\<close>

text \<open>
  The program is TypeScript; its \<open>number\<close> values are IEEE double-precision numbers.

  The gesture classifier compares computed distances with each other and with fixed
  thresholds, and a rounding error in the last place can decide such a comparison. Its
  arithmetic is therefore modelled as it is computed, every operation rounding its
  exact result to the nearest double. The numbers themselves are values of type
  \<^typ>\<open>real\<close>: a double is a real number.

  The animation loop and the particle builder are read in exact arithmetic. What is
  proved about them rests on the order of the updates, on the limit tests, which
  assign their constants exactly, and on tests that the runs considered decide by
  margins far above the rounding error of a pass.

  Array indices and counts are \<^typ>\<open>nat\<close>.
\<close>

subsection \<open>types.ts\<close>

datatype HandGesture = NONE | FIST | OPEN_PALM | OK_SIGN

text \<open>
  \<open>interface Landmark { x; y; z; visibility? }\<close>. Landmarks and particles both
  have fields \<open>x\<close>, \<open>y\<close>, \<open>z\<close>; the fields are prefixed (\<open>lm_\<close> here,
  \<open>p_\<close> for particles) to keep them apart.
\<close>

record Landmark =
  lm_x :: real
  lm_y :: real
  lm_z :: real
  lm_visibility :: "real option"

type_synonym NormalizedLandmarkList = "Landmark list"

subsection \<open>constants.ts\<close>

definition MIN_Z :: real where "MIN_Z = 5"
definition MAX_Z :: real where "MAX_Z = 40"
definition DEFAULT_Z :: real where "DEFAULT_Z = 20"

definition PULL_ACCELERATION :: real where "PULL_ACCELERATION = 0.1"
definition OK_SCALE_MULTIPLIER :: real where "OK_SCALE_MULTIPLIER = 2.5"

definition WRIST :: nat where "WRIST = 0"
definition THUMB_TIP :: nat where "THUMB_TIP = 4"
definition INDEX_PIP :: nat where "INDEX_PIP = 6"
definition INDEX_TIP :: nat where "INDEX_TIP = 8"
definition MIDDLE_MCP :: nat where "MIDDLE_MCP = 9"
definition MIDDLE_PIP :: nat where "MIDDLE_PIP = 10"
definition MIDDLE_TIP :: nat where "MIDDLE_TIP = 12"
definition RING_PIP :: nat where "RING_PIP = 14"
definition RING_TIP :: nat where "RING_TIP = 16"
definition PINKY_PIP :: nat where "PINKY_PIP = 18"
definition PINKY_TIP :: nat where "PINKY_TIP = 20"

section \<open>Double-precision arithmetic\<close>

text \<open>
  A double is a real number of the form \<open>m * 2^e\<close> with an integer \<open>m\<close> of at most 53
  bits; every arithmetic operation of the classifier returns the double nearest to its
  exact result, ties going to the even significand. \<open>expo x\<close> is the binary exponent
  of \<open>x\<close>, held at \<open>-1022\<close> for the subnormal numbers, and \<open>ulp x\<close> the distance between
  neighbouring doubles at \<open>x\<close>.
\<close>

definition expo :: "real \<Rightarrow> int" where
  "expo x = max \<lfloor>log 2 \<bar>x\<bar>\<rfloor> (- 1022)"

definition ulp :: "real \<Rightarrow> real" where
  "ulp x = 2 powr (real_of_int (expo x) - 52)"

definition roundHalfEven :: "real \<Rightarrow> int" where
  "roundHalfEven t =
     (let f = \<lfloor>t\<rfloor>
      in if t - of_int f < 1 / 2 then f
         else if t - of_int f > 1 / 2 then f + 1
         else if even f then f else f + 1)"

text \<open>
  A result of magnitude \<open>2^1024\<close> or more overflows. The real number \<open>2^1024\<close>, which
  is above every finite double, stands for the double \<open>+Infinity\<close>. In this program an
  infinite value only ever meets squaring, the addition of a non-negative number, the
  subtraction of 0.1, the division by 0.4, \<open>Math.sqrt\<close>, \<open>Math.max\<close>, \<open>Math.min\<close> and
  comparisons, and in each of them \<open>2^1024\<close> behaves as \<open>+Infinity\<close> does, given the
  case in \<open>fsqrt\<close> below. Landmark coordinates are taken to be finite, so \<open>NaN\<close> does
  not arise: no operation subtracts two infinities or takes the root of a negative
  number.
\<close>

definition Infinity :: real where
  "Infinity = 2 ^ 1024"

text \<open>
  \<open>rnd x\<close> is the double that a computation with exact result \<open>x\<close> returns. A decimal
  literal of the source stands for the double nearest to it: \<open>0.05\<close> is \<open>rnd 0.05\<close>.
\<close>

definition rnd :: "real \<Rightarrow> real" where
  "rnd x = sgn x * min Infinity (ulp x * of_int (roundHalfEven (\<bar>x\<bar> / ulp x)))"

text \<open>\<open>Math.sqrt\<close>, which returns the correctly rounded square root.\<close>

definition fsqrt :: "real \<Rightarrow> real" where
  "fsqrt x = (if Infinity \<le> x then Infinity else rnd (sqrt x))"

section \<open>Gesture recognition (services/gestureRecognition.ts)\<close>

text \<open>
  Reading a property of \<open>undefined\<close> or \<open>null\<close> throws a \<open>TypeError\<close> in
  JavaScript; it is the only exception this code can raise.
\<close>

datatype error = TypeError

definition bindE :: "error + 'a \<Rightarrow> ('a \<Rightarrow> error + 'b) \<Rightarrow> error + 'b" where
  "bindE m k = (case m of Inl e \<Rightarrow> Inl e | Inr v \<Rightarrow> k v)"

text \<open>\<open>landmarks[i]\<close>: an index past the end of an array reads \<open>undefined\<close> (here \<open>None\<close>).\<close>

definition elemAt :: "'a list \<Rightarrow> nat \<Rightarrow> 'a option" where
  "elemAt xs i = (if i < length xs then Some (xs ! i) else None)"

text \<open>
  \<open>getDistance\<close> reads \<open>p1.x\<close>, \<open>p2.x\<close>, \<open>p1.y\<close>, \<open>p2.y\<close> and nothing else; an
  undefined argument makes the first of these reads throw. Each of the two differences,
  the two squares, their sum and the square root is rounded. \<open>Math.pow(v, 2)\<close> is the
  rounded product \<open>v * v\<close>: for the exponent 2 the engines' \<open>pow\<close> returns \<open>v * v\<close>.
\<close>

definition getDistance :: "Landmark option \<Rightarrow> Landmark option \<Rightarrow> error + real" where
  "getDistance p1 p2 =
     (case p1 of
        None \<Rightarrow> Inl TypeError
      | Some a \<Rightarrow>
          (case p2 of
             None \<Rightarrow> Inl TypeError
           | Some b \<Rightarrow>
               Inr (fsqrt (rnd (rnd ((rnd (lm_x a - lm_x b))\<^sup>2)
                                + rnd ((rnd (lm_y a - lm_y b))\<^sup>2))))))"

datatype Finger = INDEX | MIDDLE | RING | PINKY

text \<open>The keyed lookups \<open>HAND_INDICES[`${fingerName}_TIP`]\<close> and \<open>..._PIP\<close>.\<close>

fun tipIndex :: "Finger \<Rightarrow> nat" where
  "tipIndex INDEX = INDEX_TIP"
| "tipIndex MIDDLE = MIDDLE_TIP"
| "tipIndex RING = RING_TIP"
| "tipIndex PINKY = PINKY_TIP"

fun pipIndex :: "Finger \<Rightarrow> nat" where
  "pipIndex INDEX = INDEX_PIP"
| "pipIndex MIDDLE = MIDDLE_PIP"
| "pipIndex RING = RING_PIP"
| "pipIndex PINKY = PINKY_PIP"

definition isFingerExtended :: "NormalizedLandmarkList \<Rightarrow> Finger \<Rightarrow> error + bool" where
  "isFingerExtended landmarks fingerName =
     (let wrist = elemAt landmarks WRIST;
          tip = elemAt landmarks (tipIndex fingerName);
          pip = elemAt landmarks (pipIndex fingerName)
      in bindE (getDistance wrist tip) (\<lambda>dTip.
         bindE (getDistance wrist pip) (\<lambda>dPip.
         Inr (dTip > dPip))))"

text \<open>
  The argument is \<open>None\<close> for a \<open>null\<close> or \<open>undefined\<close> frame. The four extension
  tests run before any of the three gesture tests, as in the source.
\<close>

definition analyzeGesture :: "NormalizedLandmarkList option \<Rightarrow> error + HandGesture" where
  "analyzeGesture landmarks =
     (case landmarks of
        None \<Rightarrow> Inr NONE
      | Some ls \<Rightarrow>
          if length ls = 0 then Inr NONE
          else
            (let thumbTip = elemAt ls THUMB_TIP;
                 indexTip = elemAt ls INDEX_TIP
             in bindE (isFingerExtended ls INDEX) (\<lambda>indexExtended.
                bindE (isFingerExtended ls MIDDLE) (\<lambda>middleExtended.
                bindE (isFingerExtended ls RING) (\<lambda>ringExtended.
                bindE (isFingerExtended ls PINKY) (\<lambda>pinkyExtended.
                bindE (getDistance thumbTip indexTip) (\<lambda>thumbIndexDist.
                  if thumbIndexDist < rnd 0.05 \<and> middleExtended \<and> ringExtended \<and> pinkyExtended
                    then Inr OK_SIGN
                  else if \<not> indexExtended \<and> \<not> middleExtended \<and> \<not> ringExtended
                            \<and> \<not> pinkyExtended
                    then Inr FIST
                  else if indexExtended \<and> middleExtended \<and> ringExtended \<and> pinkyExtended
                    then Inr OPEN_PALM
                  else Inr NONE)))))))"

text \<open>
  \<open>estimateHandProximity\<close> has no guard of its own: on a \<open>null\<close> frame the read
  \<open>landmarks[0]\<close> throws, on a short frame \<open>getDistance\<close> does.
  The subtraction and the division round; \<open>Math.max\<close> and \<open>Math.min\<close> do not.
\<close>

definition estimateHandProximity :: "NormalizedLandmarkList option \<Rightarrow> error + real" where
  "estimateHandProximity landmarks =
     (case landmarks of
        None \<Rightarrow> Inl TypeError
      | Some ls \<Rightarrow>
          (let wrist = elemAt ls WRIST;
               middleFingerMCP = elemAt ls MIDDLE_MCP
           in bindE (getDistance wrist middleFingerMCP) (\<lambda>palmSize.
              Inr (min (max (rnd (rnd (palmSize - rnd 0.1) / rnd 0.4)) 0) 1))))"

section \<open>The scene (components/ThreeScene.tsx)\<close>

subsection \<open>State\<close>

text \<open>The particle seeds returned by \<open>generateRawParticlePositions\<close>.\<close>

record RawParticle =
  p_x :: real
  p_y :: real
  p_z :: real
  p_vx :: real
  p_vy :: real
  p_vz :: real

text \<open>\<open>interface ParticleData\<close>: a seed (\<open>...p\<close>) with its mesh and instance index.\<close>

record ParticleData = RawParticle +
  meshIndex :: nat
  instanceIndex :: nat

text \<open>\<open>stateRef.current\<close>, the physics state.\<close>

record SimulationState =
  cameraZ :: real
  velocityZ :: real
  scatterAmount :: real
  flowAmount :: real
  scaleMultiplier :: real
  particles :: "ParticleData list"

text \<open>
  What \<open>dummy.updateMatrix()\<close> composes into the instance matrix: the position, the
  Euler rotation and the scale set on \<open>dummy\<close>.
\<close>

record Transform =
  position :: "real \<times> real \<times> real"
  rotation :: "real \<times> real \<times> real"
  scale :: "real \<times> real \<times> real"

text \<open>
  A \<open>THREE.InstancedMesh\<close>: its texture, its instance count and one matrix slot per
  instance (\<open>None\<close> until \<open>setMatrixAt\<close> writes it).
\<close>

record InstancedMesh =
  texture :: string
  count :: nat
  instanceMatrix :: "Transform option list"
  needsUpdate :: bool

text \<open>
  Everything the effects of the component share: whether the initialisation effect has
  set \<open>sceneRef\<close>, \<open>cameraRef\<close>, \<open>rendererRef\<close> and \<open>meshGroupRef\<close> (it sets all four
  together), the physics state, \<open>camera.position.z\<close> and \<open>meshesRef.current\<close>.
\<close>

record Scene =
  initialised :: bool
  state :: SimulationState
  cameraPositionZ :: real
  meshes :: "InstancedMesh list"

definition initialState :: SimulationState where
  "initialState =
     \<lparr>cameraZ = DEFAULT_Z, velocityZ = 0, scatterAmount = 0, flowAmount = 0,
      scaleMultiplier = 1, particles = []\<rparr>"

text \<open>The scene after the initialisation effect (\<open>camera.position.z = DEFAULT_Z\<close>).\<close>

definition initialScene :: Scene where
  "initialScene =
     \<lparr>initialised = True, state = initialState, cameraPositionZ = DEFAULT_Z, meshes = []\<rparr>"

subsection \<open>Particle and mesh reconstruction\<close>

definition texturesToUse :: "string list \<Rightarrow> string list" where
  "texturesToUse uploadedTextures =
     (if length uploadedTextures > 0 then uploadedTextures
      else [''https://picsum.photos/64/64''])"

text \<open>
  The \<open>rawParticles.forEach\<close> loop. \<open>random k\<close> is the value \<open>Math.random()\<close> returns
  in the \<open>k\<close>-th iteration, \<open>n\<close> is \<open>texturesToUse.length\<close>. The instance index is
  read after the push, as \<open>particlesPerMesh[meshIndex].length - 1\<close>. An index outside
  \<open>particlesPerMesh\<close> would read \<open>undefined\<close> and make \<open>push\<close> throw.
\<close>

fun distribute ::
  "(nat \<Rightarrow> real) \<Rightarrow> nat \<Rightarrow> nat \<Rightarrow> RawParticle list
     \<Rightarrow> RawParticle list list \<times> ParticleData list
     \<Rightarrow> error + (RawParticle list list \<times> ParticleData list)" where
  "distribute random n k [] acc = Inr acc"
| "distribute random n k (p # ps) (particlesPerMesh, finalParticles) =
     (let i = \<lfloor>random k * real n\<rfloor>
      in if 0 \<le> i \<and> nat i < length particlesPerMesh then
           (let mi = nat i;
                particlesPerMesh' = particlesPerMesh[mi := particlesPerMesh ! mi @ [p]];
                q = \<lparr>p_x = p_x p, p_y = p_y p, p_z = p_z p,
                     p_vx = p_vx p, p_vy = p_vy p, p_vz = p_vz p,
                     meshIndex = mi,
                     instanceIndex = length (particlesPerMesh' ! mi) - 1\<rparr>
            in distribute random n (Suc k) ps (particlesPerMesh', finalParticles @ [q]))
         else Inl TypeError)"

text \<open>\<open>texturesToUse.forEach\<close>: one mesh per texture whose group is not empty.\<close>

definition createMeshes :: "string list \<Rightarrow> RawParticle list list \<Rightarrow> InstancedMesh list" where
  "createMeshes textures particlesPerMesh =
     concat (map (\<lambda>(i, url).
        (let cnt = length (particlesPerMesh ! i)
         in if cnt = 0 then []
            else [\<lparr>texture = url, count = cnt, instanceMatrix = replicate cnt None,
                   needsUpdate = False\<rparr>]))
       (List.enumerate 0 textures))"

text \<open>
  The effect that runs when \<open>uploadedTextures\<close> changes. \<open>rawParticles\<close> stands for
  the result of \<open>generateRawParticlePositions()\<close>, which reads a canvas.
\<close>

definition rebuild ::
  "string list \<Rightarrow> RawParticle list \<Rightarrow> (nat \<Rightarrow> real) \<Rightarrow> Scene \<Rightarrow> error + Scene" where
  "rebuild uploadedTextures rawParticles random sc =
     (if \<not> initialised sc then Inr sc
      else
        (let textures = texturesToUse uploadedTextures;
             particlesPerMesh0 = map (\<lambda>_. []) textures
         in bindE (distribute random (length textures) 0 rawParticles (particlesPerMesh0, []))
              (\<lambda>(particlesPerMesh, finalParticles).
                 Inr (sc\<lparr>state := (state sc)\<lparr>particles := finalParticles\<rparr>,
                          meshes := createMeshes textures particlesPerMesh\<rparr>))))"

subsection \<open>The animation loop\<close>

text \<open>\<open>THREE.MathUtils.lerp(x, y, t)\<close>, which three.js defines as \<open>(1 - t) * x + t * y\<close>.\<close>

definition lerp :: "real \<Rightarrow> real \<Rightarrow> real \<Rightarrow> real" where
  "lerp x y t = (1 - t) * x + t * y"

text \<open>The block under \<open>// --- Camera Physics ---\<close>, up to and including the limits.\<close>

definition applyForce :: "HandGesture \<Rightarrow> SimulationState \<Rightarrow> SimulationState" where
  "applyForce gesture st =
     (if gesture = FIST then st\<lparr>velocityZ := velocityZ st + PULL_ACCELERATION\<rparr>
      else if gesture = OPEN_PALM then st\<lparr>velocityZ := velocityZ st - 0.05\<rparr>
      else st)"

definition applyFriction :: "SimulationState \<Rightarrow> SimulationState" where
  "applyFriction st = st\<lparr>velocityZ := velocityZ st * 0.96\<rparr>"

definition moveCamera :: "SimulationState \<Rightarrow> SimulationState" where
  "moveCamera st = st\<lparr>cameraZ := cameraZ st + velocityZ st\<rparr>"

definition applyLimits :: "SimulationState \<Rightarrow> SimulationState" where
  "applyLimits st =
     (let st1 = (if cameraZ st > MAX_Z then st\<lparr>cameraZ := MAX_Z, velocityZ := 0\<rparr> else st)
      in if cameraZ st1 < MIN_Z then st1\<lparr>cameraZ := MIN_Z, velocityZ := 0\<rparr> else st1)"

definition cameraPhysics :: "HandGesture \<Rightarrow> SimulationState \<Rightarrow> SimulationState" where
  "cameraPhysics gesture st = applyLimits (moveCamera (applyFriction (applyForce gesture st)))"

text \<open>The body of the \<open>for\<close> loop up to \<open>dummy.updateMatrix()\<close>.\<close>

definition particleTransform ::
  "HandGesture \<Rightarrow> real \<Rightarrow> SimulationState \<Rightarrow> ParticleData \<Rightarrow> Transform" where
  "particleTransform gesture time st p =
     (let flowing = flowAmount st > 0.001;
          scattering = scatterAmount st > 0.001;
          wavePhase = p_x p * 0.08 - time * 0.2;
          x0 = p_x p;
          y0 = p_y p;
          z0 = p_z p;
          z1 = (if flowing then z0 + sin wavePhase * 5.0 * flowAmount st else z0);
          y1 = (if flowing then y0 + cos (wavePhase * 0.5) * 2.0 * flowAmount st else y0);
          rotX1 = (if flowing then sin wavePhase * pi * 0.08 * flowAmount st else 0);
          rotZ1 = (if flowing then cos wavePhase * pi * 0.04 * flowAmount st else 0);
          x2 = (if scattering then x0 + p_vx p * 50 * scatterAmount st else x0);
          y2 = (if scattering then y1 + p_vy p * 50 * scatterAmount st else y1);
          z2 = (if scattering then z1 + p_vz p * 50 * scatterAmount st else z1);
          rotX2 = (if scattering then rotX1 + time * p_vx p * 10 * scatterAmount st else rotX1);
          rotY2 = (if scattering then 0 + time * p_vy p * 10 * scatterAmount st else 0);
          s = (if gesture = OK_SIGN then scaleMultiplier st else 1)
      in \<lparr>position = (x2, y2, z2), rotation = (rotX2, rotY2, rotZ1), scale = (s, s, s)\<rparr>)"

text \<open>
  \<open>setMatrixAt\<close> stores into a typed array, where a write past the end is dropped, as
  \<open>xs[i := v]\<close> does.
\<close>

definition setMatrixAt :: "InstancedMesh \<Rightarrow> nat \<Rightarrow> Transform \<Rightarrow> InstancedMesh" where
  "setMatrixAt mesh i m = mesh\<lparr>instanceMatrix := (instanceMatrix mesh)[i := Some m]\<rparr>"

definition writeParticle ::
  "HandGesture \<Rightarrow> real \<Rightarrow> SimulationState \<Rightarrow> InstancedMesh list \<Rightarrow> ParticleData
     \<Rightarrow> InstancedMesh list" where
  "writeParticle gesture time st ms p =
     (if meshIndex p < length ms
      then ms[meshIndex p := setMatrixAt (ms ! meshIndex p) (instanceIndex p)
                               (particleTransform gesture time st p)]
      else ms)"

text \<open>
  One pass of \<open>animate\<close> after its guard: \<open>gesture\<close> is \<open>latestGestureRef.current\<close>
  and \<open>time\<close> is \<open>Date.now() * 0.001\<close>, both read once per pass.
\<close>

definition tick :: "HandGesture \<Rightarrow> real \<Rightarrow> Scene \<Rightarrow> Scene" where
  "tick gesture time sc =
     (let st1 = cameraPhysics gesture (state sc);
          cameraPositionZ' = lerp (cameraPositionZ sc) (cameraZ st1) 0.1;
          isFlowing = (gesture = OPEN_PALM);
          st2 = st1\<lparr>flowAmount := lerp (flowAmount st1) (if isFlowing then 1 else 0) 0.015\<rparr>;
          shouldScatter = (cameraZ st2 < 10 \<and> gesture = OPEN_PALM);
          st3 = st2\<lparr>scatterAmount :=
                     lerp (scatterAmount st2) (if shouldScatter then 1 else 0) 0.05\<rparr>;
          targetScale = (if gesture = OK_SIGN then OK_SCALE_MULTIPLIER else 1);
          st4 = st3\<lparr>scaleMultiplier := lerp (scaleMultiplier st3) targetScale 0.1\<rparr>;
          ms = foldl (writeParticle gesture time st4) (meshes sc) (particles st4);
          ms' = map (\<lambda>mesh. mesh\<lparr>needsUpdate := True\<rparr>) ms
      in sc\<lparr>state := st4, cameraPositionZ := cameraPositionZ', meshes := ms'\<rparr>)"

definition animate :: "HandGesture \<Rightarrow> real \<Rightarrow> Scene \<Rightarrow> Scene" where
  "animate gesture time sc = (if \<not> initialised sc then sc else tick gesture time sc)"

text \<open>
  A run of the loop: one pass per element, each with the gesture and the clock value it
  reads.
\<close>

definition run :: "(HandGesture \<times> real) list \<Rightarrow> Scene \<Rightarrow> Scene" where
  "run ticks sc = foldl (\<lambda>s (gesture, time). animate gesture time s) sc ticks"

section \<open>Auxiliary definitions\<close>

subsection \<open>Relations and invariants used in the statements and proofs\<close>

text \<open>Two landmarks that agree on \<open>x\<close> and \<open>y\<close>; \<open>z\<close> and \<open>visibility\<close> are free.\<close>

definition same_xy :: "Landmark \<Rightarrow> Landmark \<Rightarrow> bool" where
  "same_xy a b = (lm_x a = lm_x b \<and> lm_y a = lm_y b)"

text \<open>
  The Euclidean distance of two landmarks in the plane, in exact arithmetic: the
  quantity the specification speaks of, as opposed to the value \<open>getDistance\<close>
  computes.
\<close>

definition euclid :: "Landmark \<Rightarrow> Landmark \<Rightarrow> real" where
  "euclid a b = sqrt ((lm_x a - lm_x b)\<^sup>2 + (lm_y a - lm_y b)\<^sup>2)"

text \<open>
  The invariant of the \<open>rawParticles.forEach\<close> loop: there are \<open>n\<close> groups, every
  particle built so far belongs to one of them, and the instance indices handed out in
  group \<open>g\<close> are, in order, \<open>0, 1, \<dots>\<close> up to the current size of the group.
\<close>

definition slotsDense :: "nat \<Rightarrow> RawParticle list list \<Rightarrow> ParticleData list \<Rightarrow> bool" where
  "slotsDense n particlesPerMesh finalParticles =
     (length particlesPerMesh = n
      \<and> list_all (\<lambda>q. meshIndex q < n) finalParticles
      \<and> list_all (\<lambda>g. map instanceIndex (filter (\<lambda>q. meshIndex q = g) finalParticles)
                        = [0..<length (particlesPerMesh ! g)]) [0..<n])"

text \<open>
  The camera part of a scene (target distance, velocity, rendered distance) and the
  effect of one pass on it. It lets a long run be evaluated on three numbers instead of
  on a whole scene; \<open>track_tick\<close> below shows that it is what \<open>tick\<close> does.
\<close>

definition track :: "Scene \<Rightarrow> real \<times> real \<times> real" where
  "track sc = (cameraZ (state sc), velocityZ (state sc), cameraPositionZ sc)"

definition cameraTrack :: "HandGesture \<Rightarrow> real \<times> real \<times> real \<Rightarrow> real \<times> real \<times> real" where
  "cameraTrack g zvc =
     (case zvc of (z, v, c) \<Rightarrow>
        (let st = cameraPhysics g (initialState\<lparr>cameraZ := z, velocityZ := v\<rparr>)
         in (cameraZ st, velocityZ st, lerp c (cameraZ st) 0.1)))"

subsection \<open>Example inputs\<close>

definition hand :: "(real \<times> real) list \<Rightarrow> NormalizedLandmarkList" where
  "hand ps = map (\<lambda>(a, b). \<lparr>lm_x = a, lm_y = b, lm_z = 0, lm_visibility = None\<rparr>) ps"

text \<open>
  An upright hand, wrist at the bottom, thumb tip pinched to the index tip, all four
  fingers reaching away from the wrist. The coordinates are multiples of \<open>1/64\<close>, and
  so is every distance the classifier computes on this frame; no operation rounds.
\<close>

definition okFrame :: NormalizedLandmarkList where
  "okFrame = hand
     [(47 / 64, 52 / 64),
      (42 / 64, 50 / 64), (38 / 64, 46 / 64), (34 / 64, 40 / 64), (32 / 64, 35 / 64),
      (41 / 64, 44 / 64), (38 / 64, 40 / 64), (35 / 64, 36 / 64), (32 / 64, 32 / 64),
      (47 / 64, 42 / 64), (47 / 64, 36 / 64), (47 / 64, 30 / 64), (47 / 64, 24 / 64),
      (51 / 64, 42 / 64), (52 / 64, 40 / 64), (55 / 64, 33 / 64), (57 / 64, 28 / 64),
      (53 / 64, 46 / 64), (55 / 64, 46 / 64), (59 / 64, 43 / 64), (63 / 64, 40 / 64)]"

text \<open>The same hand seen at another depth, with a visibility score on every landmark.\<close>

definition okFrameDeep :: NormalizedLandmarkList where
  "okFrameDeep = map (\<lambda>l. l\<lparr>lm_z := 7, lm_visibility := Some 1\<rparr>) okFrame"

text \<open>A closed hand: every fingertip is curled back to well inside its PIP joint.\<close>

definition fistFrame :: NormalizedLandmarkList where
  "fistFrame = hand
     [(47 / 64, 52 / 64),
      (42 / 64, 50 / 64), (38 / 64, 46 / 64), (40 / 64, 44 / 64), (43 / 64, 45 / 64),
      (41 / 64, 44 / 64), (38 / 64, 40 / 64), (37 / 64, 41 / 64), (41 / 64, 44 / 64),
      (47 / 64, 42 / 64), (47 / 64, 36 / 64), (47 / 64, 38 / 64), (47 / 64, 42 / 64),
      (51 / 64, 42 / 64), (52 / 64, 40 / 64), (52 / 64, 43 / 64), (50 / 64, 48 / 64),
      (53 / 64, 46 / 64), (55 / 64, 46 / 64), (54 / 64, 48 / 64), (51 / 64, 49 / 64)]"


text \<open>
  \<open>okFrame\<close> with the thumb tip at the doubles that the literals \<open>0.50000000105\<close> and
  \<open>0.45\<close> denote; the index tip is at \<open>(0.5, 0.5)\<close>. The thumb tip is less than 0.05
  away from the index tip, by about \<open>8 * 10^-20\<close>.
\<close>

definition pinchFrame :: NormalizedLandmarkList where
  "pinchFrame =
     okFrame[THUMB_TIP :=
       \<lparr>lm_x = 4503599636828055 / 2 ^ 53, lm_y = 8106479329266893 / 2 ^ 54,
        lm_z = 0, lm_visibility = None\<rparr>]"


text \<open>
  A hand whose four fingertips are exactly as far from the wrist as their PIP joints:
  the wrist is at the origin, every tip at \<open>(3s, 4s)\<close> and every PIP joint at
  \<open>(5s, 0)\<close>, for \<open>s = tieUnit\<close>. All coordinates are doubles.
\<close>

definition tieUnit :: real where
  "tieUnit = 840346399 / 2 ^ 32"

definition tieFrame :: NormalizedLandmarkList where
  "tieFrame = hand
     [(0, 0),
      (1 / 8, 1 / 8), (1 / 4, 1 / 8), (3 / 8, 1 / 4), (3 * tieUnit, 4 * tieUnit - 1 / 2),
      (1 / 2, 1 / 8), (5 * tieUnit, 0), (3 / 4, 1 / 4), (3 * tieUnit, 4 * tieUnit),
      (1 / 2, 1 / 8), (5 * tieUnit, 0), (3 / 4, 1 / 4), (3 * tieUnit, 4 * tieUnit),
      (1 / 2, 1 / 8), (5 * tieUnit, 0), (3 / 4, 1 / 4), (3 * tieUnit, 4 * tieUnit),
      (1 / 2, 1 / 8), (5 * tieUnit, 0), (3 / 4, 1 / 4), (3 * tieUnit, 4 * tieUnit)]"

text \<open>A scene whose camera target is already near while the rendered camera is still far.\<close>

definition nearScene :: Scene where
  "nearScene =
     \<lparr>initialised = True, state = initialState\<lparr>cameraZ := 9\<rparr>, cameraPositionZ = 20,
      meshes = []\<rparr>"

text \<open>A scene moving outwards just below the far limit.\<close>

definition topScene :: Scene where
  "topScene =
     \<lparr>initialised = True, state = initialState\<lparr>cameraZ := 39.95, velocityZ := 1\<rparr>,
      cameraPositionZ = 38, meshes = []\<rparr>"

text \<open>
  One particle in slot 0 of one mesh, with the scale multiplier fully raised, as after a
  long \<open>OK_SIGN\<close>.
\<close>

definition scaledScene :: Scene where
  "scaledScene =
     \<lparr>initialised = True,
      state = initialState\<lparr>scaleMultiplier := 2.5,
                 particles := [\<lparr>p_x = 1, p_y = 2, p_z = 0, p_vx = 0.1, p_vy = 0.2, p_vz = 0.25,
                                 meshIndex = 0, instanceIndex = 0\<rparr>]\<rparr>,
      cameraPositionZ = 20,
      meshes = [\<lparr>texture = ''a'', count = 1, instanceMatrix = [None], needsUpdate = False\<rparr>]\<rparr>"

text \<open>Three seeds and a random source that alternates between \<open>0\<close> and \<open>3/4\<close>.\<close>

definition seeds :: "RawParticle list" where
  "seeds =
     [\<lparr>p_x = 0, p_y = 0, p_z = 0, p_vx = 0.1, p_vy = 0.1, p_vz = 0.1\<rparr>,
      \<lparr>p_x = 1, p_y = 0, p_z = 0, p_vx = 0.2, p_vy = 0.1, p_vz = 0.1\<rparr>,
      \<lparr>p_x = 2, p_y = 0, p_z = 0, p_vx = 0.1, p_vy = 0.2, p_vz = 0.1\<rparr>]"

definition alternating :: "nat \<Rightarrow> real" where
  "alternating k = (if even k then 0 else 3 / 4)"

section \<open>Properties of the double-precision arithmetic\<close>

subsection \<open>Evaluation\<close>

text \<open>
  The binary exponent of a given number is found by halving or doubling it into
  \<open>[1, 2)\<close>; with these rules the simplifier evaluates \<open>rnd\<close> on a numeral.
\<close>

lemma floor_log2_unit: "1 \<le> x \<Longrightarrow> x < 2 \<Longrightarrow> \<lfloor>log 2 x\<rfloor> = 0"
  using floor_log_eq_powr_iff[of x 2 0] by simp

lemma floor_log2_double: "0 < x \<Longrightarrow> x < 1 \<Longrightarrow> \<lfloor>log 2 x\<rfloor> = \<lfloor>log 2 (2 * x)\<rfloor> - 1"
  by (simp add: log_mult)

lemma floor_log2_half: "2 \<le> x \<Longrightarrow> \<lfloor>log 2 x\<rfloor> = \<lfloor>log 2 (x / 2)\<rfloor> + 1"
  by (simp add: log_divide)

lemmas rnd_eval = rnd_def ulp_def expo_def roundHalfEven_def Infinity_def Let_def
  floor_log2_unit floor_log2_double floor_log2_half powr_neg_numeral

subsection \<open>Rounding to an integer\<close>






lemma roundHalfEven_near:
  assumes "\<bar>t - of_int m\<bar> < 1 / 2"
  shows "roundHalfEven t = m"
proof (cases "of_int m \<le> t")
  case True
  with assms have "\<lfloor>t\<rfloor> = m" by (simp add: floor_eq_iff)
  with assms True show ?thesis
    by (simp add: roundHalfEven_def Let_def)
next
  case False
  with assms have "\<lfloor>t\<rfloor> = m - 1" by (simp add: floor_eq_iff)
  with assms False show ?thesis
    by (simp add: roundHalfEven_def Let_def)
qed

subsection \<open>Rounding to a double\<close>

lemma grid_52: "2 powr (a - 52) * 2 ^ 52 = 2 powr (a::real)"
  by (simp add: powr_diff)

lemma grid_53: "2 powr (a - 52) * 2 ^ 53 = 2 powr ((a::real) + 1)"
  by (simp add: powr_diff powr_add)










lemma rnd_pos: "0 < x \<Longrightarrow> rnd x = min Infinity (ulp x * of_int (roundHalfEven (x / ulp x)))"
  by (simp add: rnd_def)






text \<open>
  A value within half a grid step of a normal double \<open>m * 2^(e - 52)\<close>, with
  \<open>2^52 < m < 2^53\<close>, rounds to that double.
\<close>

lemma rnd_near:
  assumes e: "- 1022 \<le> e" "e \<le> 1023"
    and m: "2 ^ 52 < m" "m < 2 ^ 53"
    and v: "v = of_int m * 2 powr (real_of_int e - 52)"
    and near: "\<bar>y - v\<bar> < 2 powr (real_of_int e - 52) / 2"
  shows "rnd y = v"
proof -
  define u where "u = 2 powr (real_of_int e - 52)"
  have u: "0 < u" by (simp add: u_def)
  have "real_of_int (2 ^ 52 + 1) \<le> real_of_int m" "real_of_int m \<le> real_of_int (2 ^ 53 - 1)"
    using m by (simp_all only: of_int_le_iff)
  then have m': "2 ^ 52 + 1 \<le> real_of_int m" "real_of_int m \<le> 2 ^ 53 - 1"
    by simp_all
  have v': "v = real_of_int m * u"
    by (simp add: v u_def)
  have near': "\<bar>y - v\<bar> < u / 2"
    using near by (simp add: u_def)
  have lo: "2 powr real_of_int e \<le> y"
  proof -
    have "2 powr real_of_int e = 2 ^ 52 * u"
      using grid_52[of "real_of_int e"] by (simp add: u_def mult.commute)
    also have "\<dots> \<le> (real_of_int m - 1) * u"
      using m'(1) u by (intro mult_right_mono) simp_all
    also have "\<dots> \<le> v - u / 2"
      using u by (simp add: v' algebra_simps)
    also have "\<dots> \<le> y"
      using near' by linarith
    finally show ?thesis .
  qed
  have hi: "y < 2 powr (real_of_int e + 1)"
  proof -
    have "y < v + u / 2"
      using near' by linarith
    also have "\<dots> \<le> (real_of_int m + 1) * u"
      using u by (simp add: v' algebra_simps)
    also have "\<dots> \<le> 2 ^ 53 * u"
      using m'(2) u by (intro mult_right_mono) simp_all
    also have "\<dots> = 2 powr (real_of_int e + 1)"
      using grid_53[of "real_of_int e"] by (simp add: u_def mult.commute)
    finally show ?thesis .
  qed
  have "0 < 2 powr real_of_int e"
    by simp
  with lo have ypos: "0 < y"
    by linarith
  have k: "\<lfloor>log 2 y\<rfloor> = e"
    using floor_log_eq_powr_iff[of y 2 e] ypos lo hi by simp
  have ulp: "ulp y = u"
    using ypos e by (simp add: ulp_def expo_def k u_def)
  have "\<bar>y / u - real_of_int m\<bar> < 1 / 2"
  proof -
    have "y / u - real_of_int m = (y - v) / u"
      using u by (simp add: v' field_simps)
    then have "\<bar>y / u - real_of_int m\<bar> = \<bar>y - v\<bar> / u"
      using u by simp
    also have "\<dots> < 1 / 2"
      using near' u by (simp add: field_simps)
    finally show ?thesis .
  qed
  then have r: "roundHalfEven (y / u) = m"
    by (rule roundHalfEven_near)
  have "v < Infinity"
  proof -
    have "v < 2 ^ 53 * u"
      using m'(2) u by (simp add: v')
    also have "\<dots> = 2 powr (real_of_int e + 1)"
      using grid_53[of "real_of_int e"] by (simp add: u_def mult.commute)
    also have "\<dots> \<le> 2 powr real_of_int 1024"
      using e by (intro powr_mono) simp_all
    also have "\<dots> = Infinity"
      by (simp add: Infinity_def)
    finally show ?thesis .
  qed
  then show ?thesis
    using ypos by (simp add: rnd_pos ulp r v' mult.commute)
qed

lemma fsqrt_near:
  assumes e: "- 1022 \<le> e" "e \<le> 1023"
    and m: "2 ^ 52 < m" "m < 2 ^ 53"
    and v: "v = of_int m * 2 powr (real_of_int e - 52)"
    and lo: "(v - 2 powr (real_of_int e - 52) / 2)\<^sup>2 < x"
    and hi: "x < (v + 2 powr (real_of_int e - 52) / 2)\<^sup>2"
    and fin: "x < Infinity"
  shows "fsqrt x = v"
proof -
  define h where "h = 2 powr (real_of_int e - 52) / 2"
  have h: "0 < h" by (simp add: h_def)
  have "1 \<le> m"
    using m by simp
  then have "1 \<le> real_of_int m"
    by simp
  then have "2 * h \<le> v"
    by (simp add: v h_def)
  then have vh: "0 \<le> v - h" "0 < v + h"
    using h by linarith+
  have "v - h < sqrt x"
    using lo vh(1) by (intro real_less_rsqrt) (simp add: h_def)
  moreover have "sqrt x < v + h"
    using hi vh(2) by (intro real_less_lsqrt) (simp_all add: h_def)
  ultimately have "\<bar>sqrt x - v\<bar> < h"
    by linarith
  then have "rnd (sqrt x) = v"
    unfolding h_def by (rule rnd_near[OF e m v])
  then show ?thesis
    using fin by (simp add: fsqrt_def)
qed

lemma fsqrt_square:
  assumes "0 \<le> v" and "v\<^sup>2 = x" and "x < Infinity"
  shows "fsqrt x = rnd v"
proof -
  have "sqrt x = v"
    using assms by (metis real_sqrt_abs abs_of_nonneg)
  then show ?thesis
    using assms by (simp add: fsqrt_def)
qed

section \<open>Properties of the gesture classifier\<close>

lemmas HAND_INDICES =
  WRIST_def THUMB_TIP_def INDEX_PIP_def INDEX_TIP_def MIDDLE_MCP_def MIDDLE_PIP_def
  MIDDLE_TIP_def RING_PIP_def RING_TIP_def PINKY_PIP_def PINKY_TIP_def

lemmas classifier_defs =
  isFingerExtended_def getDistance_def bindE_def elemAt_def

lemma sqrt_less_bound: "0 \<le> c \<Longrightarrow> (sqrt a < c) = (a < c\<^sup>2)"
  by (metis real_sqrt_less_iff real_sqrt_abs abs_of_nonneg)


lemma tipIndex_le: "tipIndex fg \<le> 20"
  by (cases fg) (simp_all add: HAND_INDICES)

lemma pipIndex_le: "pipIndex fg \<le> 20"
  by (cases fg) (simp_all add: HAND_INDICES)

text \<open>On a frame with all 21 landmarks no read is undefined, so nothing throws.\<close>

lemma isFingerExtended_full:
  assumes "21 \<le> length f"
  shows "\<exists>b. isFingerExtended f fg = Inr b"
  using assms tipIndex_le[of fg] pipIndex_le[of fg]
  by (auto simp add: classifier_defs WRIST_def Let_def)

lemma thumbIndexDist_full:
  assumes "21 \<le> length f"
  shows "\<exists>d. getDistance (elemAt f THUMB_TIP) (elemAt f INDEX_TIP) = Inr d"
  using assms by (auto simp add: getDistance_def elemAt_def HAND_INDICES)

lemma getDistance_same_xy:
  assumes "list_all2 same_xy f1 f2"
  shows "getDistance (elemAt f1 i) (elemAt f1 j) = getDistance (elemAt f2 i) (elemAt f2 j)"
proof -
  have len: "length f1 = length f2"
    using assms by (rule list_all2_lengthD)
  have nth: "k < length f1 \<Longrightarrow> same_xy (f1 ! k) (f2 ! k)" for k
    using assms by (simp add: list_all2_conv_all_nth)
  show ?thesis
    using len nth[of i] nth[of j]
    by (simp add: getDistance_def elemAt_def same_xy_def)
qed

lemma isFingerExtended_same_xy:
  "list_all2 same_xy f1 f2 \<Longrightarrow> isFingerExtended f1 fg = isFingerExtended f2 fg"
  by (simp add: isFingerExtended_def Let_def getDistance_same_xy[of f1 f2])

subsection \<open>The constants and the example frames, evaluated\<close>

lemma literal_005: "rnd 0.05 = 3602879701896397 / 2 ^ 56"
  by (simp add: rnd_eval)





text \<open>The square roots that occur on the example frames.\<close>

lemma root_1: "fsqrt (9 / 4096) = 3 / 64"
  using fsqrt_square[of "3 / 64" "9 / 4096"]
  by (simp add: power2_eq_square rnd_eval)

lemma root_2: "fsqrt (5764607523034235 / 2305843009213693952) = 3602879701896397 / 72057594037927936"
  by (rule fsqrt_near[where e = "- 5" and m = 7205759403792794])
     (simp_all add: powr_neg_numeral Infinity_def power2_eq_square)

lemma root_3: "fsqrt (1 / 256) = 1 / 16"
  using fsqrt_square[of "1 / 16" "1 / 256"]
  by (simp add: power2_eq_square rnd_eval)

lemma root_4: "fsqrt (25 / 4096) = 5 / 64"
  using fsqrt_square[of "5 / 64" "25 / 4096"]
  by (simp add: power2_eq_square rnd_eval)

lemma root_5: "fsqrt (25 / 1024) = 5 / 32"
  using fsqrt_square[of "5 / 32" "25 / 1024"]
  by (simp add: power2_eq_square rnd_eval)

lemma root_6: "fsqrt (169 / 4096) = 13 / 64"
  using fsqrt_square[of "13 / 64" "169 / 4096"]
  by (simp add: power2_eq_square rnd_eval)

lemma root_7: "fsqrt (225 / 4096) = 15 / 64"
  using fsqrt_square[of "15 / 64" "225 / 4096"]
  by (simp add: power2_eq_square rnd_eval)

lemma root_8: "fsqrt (1 / 16) = 1 / 4"
  using fsqrt_square[of "1 / 4" "1 / 16"]
  by (simp add: power2_eq_square rnd_eval)

lemma root_9: "fsqrt (25 / 256) = 5 / 16"
  using fsqrt_square[of "5 / 16" "25 / 256"]
  by (simp add: power2_eq_square rnd_eval)

lemma root_10: "fsqrt (9 / 64) = 3 / 8"
  using fsqrt_square[of "3 / 8" "9 / 64"]
  by (simp add: power2_eq_square rnd_eval)

lemma root_11: "fsqrt (625 / 4096) = 25 / 64"
  using fsqrt_square[of "25 / 64" "625 / 4096"]
  by (simp add: power2_eq_square rnd_eval)

lemma root_12: "fsqrt (169 / 1024) = 13 / 32"
  using fsqrt_square[of "13 / 32" "169 / 1024"]
  by (simp add: power2_eq_square rnd_eval)

lemma root_13: "fsqrt (49 / 256) = 7 / 16"
  using fsqrt_square[of "7 / 16" "49 / 256"]
  by (simp add: power2_eq_square rnd_eval)

lemma root_14: "fsqrt (9007199254740991 / 36028797018963968) = 9007199254740991 / 18014398509481984"
  by (rule fsqrt_near[where e = "- 2" and m = 9007199254740991])
     (simp_all add: powr_neg_numeral Infinity_def power2_eq_square)

lemma root_15: "fsqrt (1 / 4) = 1 / 2"
  using fsqrt_square[of "1 / 2" "1 / 4"]
  by (simp add: power2_eq_square rnd_eval)

lemma root_16: "fsqrt (25 / 64) = 5 / 8"
  using fsqrt_square[of "5 / 8" "25 / 64"]
  by (simp add: power2_eq_square rnd_eval)

lemma root_17: "fsqrt (8620386600491543 / 9007199254740992) = 4201731995 / 4294967296"
  by (rule fsqrt_near[where e = "- 1" and m = 8811670656778240])
     (simp_all add: powr_neg_numeral Infinity_def power2_eq_square)

lemma root_18: "fsqrt (1077548325061443 / 1125899906842624) = 8811670656778241 / 9007199254740992"
  by (rule fsqrt_near[where e = "- 1" and m = 8811670656778241])
     (simp_all add: powr_neg_numeral Infinity_def power2_eq_square)

lemmas roots =
  root_1 root_2 root_3 root_4 root_5 root_6 root_7 root_8 root_9 root_10 root_11 root_12 root_13 root_14 root_15 root_16 root_17 root_18

lemmas frame_eval =
  hand_def classifier_defs HAND_INDICES power2_eq_square rnd_eval roots

lemma okFrame_length: "length okFrame = 21"
  by (simp add: okFrame_def hand_def)

lemma okFrame_extended: "isFingerExtended okFrame fg = Inr True"
  by (cases fg) (simp_all add: okFrame_def frame_eval)

lemma okFrame_pinch:
  "getDistance (elemAt okFrame THUMB_TIP) (elemAt okFrame INDEX_TIP) = Inr (3 / 64)"
  by (simp add: okFrame_def frame_eval)





text \<open>
  On \<open>pinchFrame\<close> the computed thumb-to-index distance is the double \<open>0.05\<close> itself,
  although the exact distance is smaller.
\<close>

lemma pinchFrame_pinch:
  "getDistance (elemAt pinchFrame THUMB_TIP) (elemAt pinchFrame INDEX_TIP) = Inr (rnd 0.05)"
  by (simp add: pinchFrame_def okFrame_def frame_eval)

lemma pinchFrame_extended: "isFingerExtended pinchFrame fg = Inr True"
  by (cases fg) (simp_all add: pinchFrame_def okFrame_def frame_eval)

text \<open>
  On \<open>tieFrame\<close> the computed wrist-to-tip distance is one unit in the last place above
  the computed wrist-to-PIP distance, although the exact distances are equal.
\<close>

lemma tieFrame_tip:
  "getDistance (elemAt tieFrame WRIST) (elemAt tieFrame (tipIndex fg))
     = Inr (8811670656778241 / 2 ^ 53)"
  by (cases fg) (simp_all add: tieFrame_def tieUnit_def frame_eval)

lemma tieFrame_pip:
  "getDistance (elemAt tieFrame WRIST) (elemAt tieFrame (pipIndex fg))
     = Inr (8811670656778240 / 2 ^ 53)"
  by (cases fg) (simp_all add: tieFrame_def tieUnit_def frame_eval)

lemma tieFrame_pinch:
  "getDistance (elemAt tieFrame THUMB_TIP) (elemAt tieFrame INDEX_TIP) = Inr (1 / 2)"
  by (simp add: tieFrame_def tieUnit_def frame_eval)


subsection \<open>The claims\<close>

text \<open>
  Claim C9. A \<open>null\<close> frame and an empty frame are classified as \<open>NONE\<close>, and no
  error is raised. The finger tests and the thumb-to-index distance are not evaluated on
  such a frame: each of them throws on the empty frame, and the classifier does not.
\<close>

theorem empty_frame_is_NONE:
  "analyzeGesture None = Inr NONE
   \<and> analyzeGesture (Some []) = Inr NONE
   \<and> isFingerExtended [] fg = Inl TypeError
   \<and> getDistance (elemAt [] THUMB_TIP) (elemAt [] INDEX_TIP) = Inl TypeError"
  by (simp add: analyzeGesture_def classifier_defs)

text \<open>
  Claim C3, as the code has it. The claim speaks of the Euclidean distance between thumb
  tip and index tip and of fingers whose tip is farther from the wrist than the PIP
  joint; the code decides both on distances computed in double precision, and within a
  rounding error of the threshold the two differ. On a frame of 21 landmarks on which
  the thumb-to-index distance that \<open>getDistance\<close> computes is below the constant
  \<open>0.05\<close>, and on which the middle, ring and little finger are extended by the test the
  code makes (the computed wrist-to-tip distance exceeds the computed wrist-to-PIP
  distance), the classifier answers \<open>OK_SIGN\<close>, whether the index finger is extended
  or not; so such a frame that also passes the \<open>OPEN_PALM\<close> test is an \<open>OK_SIGN\<close>.
\<close>

theorem ok_sign_has_precedence:
  assumes "length f = 21"
    and "getDistance (elemAt f THUMB_TIP) (elemAt f INDEX_TIP) = Inr d"
    and "d < rnd 0.05"
    and "isFingerExtended f MIDDLE = Inr True"
    and "isFingerExtended f RING = Inr True"
    and "isFingerExtended f PINKY = Inr True"
  shows "analyzeGesture (Some f) = Inr OK_SIGN"
proof -
  obtain b where "isFingerExtended f INDEX = Inr b"
    using isFingerExtended_full[of f INDEX] assms(1) by auto
  with assms show ?thesis
    by (simp add: analyzeGesture_def bindE_def)
qed

theorem ok_sign_has_precedence_witness:
  "length okFrame = 21
   \<and> getDistance (elemAt okFrame THUMB_TIP) (elemAt okFrame INDEX_TIP) = Inr (3 / 64)
   \<and> isFingerExtended okFrame INDEX = Inr True
   \<and> analyzeGesture (Some okFrame) = Inr OK_SIGN"
proof -
  have close: "3 / 64 < rnd 0.05"
    using literal_005 by simp
  show ?thesis
    using ok_sign_has_precedence[OF okFrame_length okFrame_pinch close
        okFrame_extended okFrame_extended okFrame_extended]
    by (simp add: okFrame_length okFrame_extended okFrame_pinch)
qed

text \<open>
  The claim C3 as stated fails on \<open>pinchFrame\<close>. The Euclidean distance between thumb
  tip and index tip is strictly below 0.05, and the tips of the middle, ring and little
  finger are farther from the wrist than their PIP joints. The code computes the
  distance \<open>0.05\<close> (the two squares sum to a number that rounds up), the test
  \<open>thumbIndexDist < 0.05\<close> fails, and the answer is \<open>OPEN_PALM\<close>.
\<close>

theorem ok_sign_rounding_counterexample:
  "length pinchFrame = 21
   \<and> euclid (pinchFrame ! THUMB_TIP) (pinchFrame ! INDEX_TIP) < 0.05
   \<and> euclid (pinchFrame ! WRIST) (pinchFrame ! MIDDLE_TIP)
       > euclid (pinchFrame ! WRIST) (pinchFrame ! MIDDLE_PIP)
   \<and> euclid (pinchFrame ! WRIST) (pinchFrame ! RING_TIP)
       > euclid (pinchFrame ! WRIST) (pinchFrame ! RING_PIP)
   \<and> euclid (pinchFrame ! WRIST) (pinchFrame ! PINKY_TIP)
       > euclid (pinchFrame ! WRIST) (pinchFrame ! PINKY_PIP)
   \<and> analyzeGesture (Some pinchFrame) = Inr OPEN_PALM"
proof -
  have len: "length pinchFrame = 21"
    by (simp add: pinchFrame_def okFrame_def hand_def HAND_INDICES)
  have near: "euclid (pinchFrame ! THUMB_TIP) (pinchFrame ! INDEX_TIP) < 0.05"
    using sqrt_less_bound[of "1 / 20"]
    by (simp add: euclid_def pinchFrame_def okFrame_def hand_def HAND_INDICES power2_eq_square)
  have fingers:
    "euclid (pinchFrame ! WRIST) (pinchFrame ! MIDDLE_TIP)
       > euclid (pinchFrame ! WRIST) (pinchFrame ! MIDDLE_PIP)"
    "euclid (pinchFrame ! WRIST) (pinchFrame ! RING_TIP)
       > euclid (pinchFrame ! WRIST) (pinchFrame ! RING_PIP)"
    "euclid (pinchFrame ! WRIST) (pinchFrame ! PINKY_TIP)
       > euclid (pinchFrame ! WRIST) (pinchFrame ! PINKY_PIP)"
    by (simp_all add: euclid_def pinchFrame_def okFrame_def hand_def HAND_INDICES
          power2_eq_square)
  have answer: "analyzeGesture (Some pinchFrame) = Inr OPEN_PALM"
    using len by (simp add: analyzeGesture_def bindE_def pinchFrame_pinch pinchFrame_extended)
  show ?thesis
    using len near fingers answer by simp
qed

text \<open>
  A finger counts as extended exactly when the computed distance of its tip from the
  wrist is strictly greater than the computed distance of its PIP joint.
\<close>

lemma isFingerExtended_distances:
  assumes "getDistance (elemAt f WRIST) (elemAt f (tipIndex fg)) = Inr dTip"
    and "getDistance (elemAt f WRIST) (elemAt f (pipIndex fg)) = Inr dPip"
  shows "isFingerExtended f fg = Inr (dTip > dPip)"
  using assms by (simp add: isFingerExtended_def bindE_def Let_def)

text \<open>
  Claim C7, as the code has it. The claim compares the wrist-to-fingertip distance with
  the wrist-to-PIP distance; the code compares the two distances as computed in double
  precision, and for distances that are equal or nearly equal the comparisons differ.
  On a frame of 21 landmarks on which none of the index, middle, ring and little finger
  is extended by the test the code makes (for each, the computed wrist-to-tip distance
  does not exceed the computed wrist-to-PIP distance) the classifier answers \<open>FIST\<close>.
  Nothing is assumed about the thumb landmarks.
\<close>

theorem curled_fingers_are_FIST:
  assumes "length f = 21"
    and "\<forall>fg. isFingerExtended f fg = Inr False"
  shows "analyzeGesture (Some f) = Inr FIST"
proof -
  obtain d where "getDistance (elemAt f THUMB_TIP) (elemAt f INDEX_TIP) = Inr d"
    using thumbIndexDist_full[of f] assms(1) by auto
  with assms show ?thesis
    by (simp add: analyzeGesture_def bindE_def)
qed

theorem curled_fingers_are_FIST_witness:
  "length fistFrame = 21 \<and> analyzeGesture (Some fistFrame) = Inr FIST"
proof -
  have len: "length fistFrame = 21"
    by (simp add: fistFrame_def hand_def)
  have curled: "\<forall>fg. isFingerExtended fistFrame fg = Inr False"
  proof
    fix fg
    show "isFingerExtended fistFrame fg = Inr False"
      by (cases fg) (simp_all add: fistFrame_def frame_eval)
  qed
  show ?thesis
    using curled_fingers_are_FIST[OF len curled] len by simp
qed

text \<open>
  The claim C7 as stated fails on \<open>tieFrame\<close>. For each of the four fingers the tip is
  exactly as far from the wrist as the PIP joint, so no wrist-to-tip distance exceeds
  the wrist-to-PIP distance. The code computes a tip distance one unit in the last
  place above the PIP distance, takes every finger as extended, and answers
  \<open>OPEN_PALM\<close>.
\<close>

theorem curled_fingers_rounding_counterexample:
  "length tieFrame = 21
   \<and> \<not> euclid (tieFrame ! WRIST) (tieFrame ! INDEX_TIP)
         > euclid (tieFrame ! WRIST) (tieFrame ! INDEX_PIP)
   \<and> \<not> euclid (tieFrame ! WRIST) (tieFrame ! MIDDLE_TIP)
         > euclid (tieFrame ! WRIST) (tieFrame ! MIDDLE_PIP)
   \<and> \<not> euclid (tieFrame ! WRIST) (tieFrame ! RING_TIP)
         > euclid (tieFrame ! WRIST) (tieFrame ! RING_PIP)
   \<and> \<not> euclid (tieFrame ! WRIST) (tieFrame ! PINKY_TIP)
         > euclid (tieFrame ! WRIST) (tieFrame ! PINKY_PIP)
   \<and> analyzeGesture (Some tieFrame) = Inr OPEN_PALM"
proof -
  have len: "length tieFrame = 21"
    by (simp add: tieFrame_def hand_def)
  have ties:
    "\<not> euclid (tieFrame ! WRIST) (tieFrame ! INDEX_TIP)
         > euclid (tieFrame ! WRIST) (tieFrame ! INDEX_PIP)"
    "\<not> euclid (tieFrame ! WRIST) (tieFrame ! MIDDLE_TIP)
         > euclid (tieFrame ! WRIST) (tieFrame ! MIDDLE_PIP)"
    "\<not> euclid (tieFrame ! WRIST) (tieFrame ! RING_TIP)
         > euclid (tieFrame ! WRIST) (tieFrame ! RING_PIP)"
    "\<not> euclid (tieFrame ! WRIST) (tieFrame ! PINKY_TIP)
         > euclid (tieFrame ! WRIST) (tieFrame ! PINKY_PIP)"
    by (simp_all add: euclid_def tieFrame_def tieUnit_def hand_def HAND_INDICES
          power2_eq_square)
  have extended: "isFingerExtended tieFrame fg = Inr True" for fg
    using isFingerExtended_distances[OF tieFrame_tip[of fg] tieFrame_pip[of fg]] by simp
  have far: "\<not> 1 / 2 < rnd 0.05"
    using literal_005 by simp
  have answer: "analyzeGesture (Some tieFrame) = Inr OPEN_PALM"
    using len far by (simp add: analyzeGesture_def bindE_def tieFrame_pinch extended)
  show ?thesis
    using len ties answer by simp
qed

text \<open>
  Claim C10. Two frames that agree on the \<open>x\<close> and \<open>y\<close> coordinate of every landmark
  get the same gesture and the same proximity score, whatever their \<open>z\<close> coordinates
  and visibility values are. This holds for frames of any length, hence for frames of 21
  landmarks.
\<close>

theorem classifier_ignores_depth:
  assumes "list_all2 same_xy f1 f2"
  shows "analyzeGesture (Some f1) = analyzeGesture (Some f2)
       \<and> estimateHandProximity (Some f1) = estimateHandProximity (Some f2)"
proof -
  have "length f1 = length f2"
    using assms by (rule list_all2_lengthD)
  then show ?thesis
    by (simp add: analyzeGesture_def estimateHandProximity_def
        isFingerExtended_same_xy[OF assms] getDistance_same_xy[OF assms])
qed

theorem classifier_ignores_depth_witness:
  "list_all2 same_xy okFrame okFrameDeep
   \<and> map lm_z okFrame \<noteq> map lm_z okFrameDeep
   \<and> analyzeGesture (Some okFrame) = analyzeGesture (Some okFrameDeep)
   \<and> estimateHandProximity (Some okFrame) = estimateHandProximity (Some okFrameDeep)"
proof -
  have agree: "list_all2 same_xy okFrame okFrameDeep"
    by (simp add: okFrameDeep_def okFrame_def hand_def same_xy_def)
  have differ: "map lm_z okFrame \<noteq> map lm_z okFrameDeep"
    by (simp add: okFrameDeep_def okFrame_def hand_def)
  show ?thesis
    using classifier_ignores_depth[OF agree] agree differ by simp
qed








section \<open>Properties of the camera physics\<close>

lemmas physics_defs =
  cameraPhysics_def applyLimits_def moveCamera_def applyFriction_def applyForce_def

lemmas camera_constants = MIN_Z_def MAX_Z_def DEFAULT_Z_def PULL_ACCELERATION_def

lemma tick_cameraZ: "cameraZ (state (tick g t sc)) = cameraZ (cameraPhysics g (state sc))"
  by (simp add: tick_def Let_def)

lemma tick_velocityZ: "velocityZ (state (tick g t sc)) = velocityZ (cameraPhysics g (state sc))"
  by (simp add: tick_def Let_def)

lemma tick_initialised: "initialised (tick g t sc) = initialised sc"
  by (simp add: tick_def Let_def)

lemma cameraPhysics_flowAmount: "flowAmount (cameraPhysics g st) = flowAmount st"
  by (simp add: physics_defs Let_def)

lemma cameraPhysics_scatterAmount: "scatterAmount (cameraPhysics g st) = scatterAmount st"
  by (simp add: physics_defs Let_def)

lemma cameraPhysics_scaleMultiplier: "scaleMultiplier (cameraPhysics g st) = scaleMultiplier st"
  by (simp add: physics_defs Let_def)

lemma cameraPhysics_particles: "particles (cameraPhysics g st) = particles st"
  by (simp add: physics_defs Let_def)

lemmas cameraPhysics_fields =
  cameraPhysics_flowAmount cameraPhysics_scatterAmount cameraPhysics_scaleMultiplier
  cameraPhysics_particles

lemma applyLimits_range:
  "MIN_Z \<le> cameraZ (applyLimits st) \<and> cameraZ (applyLimits st) \<le> MAX_Z"
  by (simp add: applyLimits_def Let_def MIN_Z_def MAX_Z_def)

lemma applyLimits_clamped:
  "cameraZ st > MAX_Z \<or> cameraZ st < MIN_Z \<Longrightarrow> velocityZ (applyLimits st) = 0"
  by (auto simp add: applyLimits_def Let_def MIN_Z_def MAX_Z_def)

lemma run_Nil: "run [] sc = sc"
  by (simp add: run_def)

lemma run_Cons: "run ((g, t) # ticks) sc = run ticks (animate g t sc)"
  by (simp add: run_def)

lemma run_snoc: "run (ticks @ [(g, t)]) sc = animate g t (run ticks sc)"
  by (simp add: run_def)

lemma animate_range:
  "MIN_Z \<le> cameraZ (state sc) \<and> cameraZ (state sc) \<le> MAX_Z
   \<Longrightarrow> MIN_Z \<le> cameraZ (state (animate g t sc)) \<and> cameraZ (state (animate g t sc)) \<le> MAX_Z"
  using applyLimits_range
  by (simp add: animate_def tick_cameraZ cameraPhysics_def)

lemma run_range:
  assumes "MIN_Z \<le> cameraZ (state sc) \<and> cameraZ (state sc) \<le> MAX_Z"
  shows "MIN_Z \<le> cameraZ (state (run ticks sc)) \<and> cameraZ (state (run ticks sc)) \<le> MAX_Z"
  using assms
proof (induction ticks arbitrary: sc)
  case Nil
  then show ?case by (simp add: run_Nil)
next
  case (Cons a ticks)
  obtain g t where a: "a = (g, t)" by (cases a)
  show ?case
    unfolding a run_Cons
    by (rule Cons.IH) (rule animate_range[OF Cons.prems])
qed

text \<open>
  Claim C2. If the camera distance starts in \<open>[MIN_Z, MAX_Z]\<close>, it is in that interval
  after every prefix of every run of the loop, whatever the gestures are; and in any pass
  in which one of the two limit branches fires (the distance after the move lies above
  \<open>MAX_Z\<close> or below \<open>MIN_Z\<close>), the velocity at the end of the pass is 0.
\<close>

theorem camera_stays_within_limits:
  assumes "MIN_Z \<le> cameraZ (state sc)" and "cameraZ (state sc) \<le> MAX_Z"
  shows "(\<forall>n \<le> length ticks.
            MIN_Z \<le> cameraZ (state (run (take n ticks) sc))
          \<and> cameraZ (state (run (take n ticks) sc)) \<le> MAX_Z)
       \<and> (\<forall>g t s. cameraZ (moveCamera (applyFriction (applyForce g (state s)))) > MAX_Z
                  \<or> cameraZ (moveCamera (applyFriction (applyForce g (state s)))) < MIN_Z
              \<longrightarrow> velocityZ (state (tick g t s)) = 0)"
  using assms run_range[of sc] applyLimits_clamped
  by (simp add: tick_velocityZ cameraPhysics_def)

lemmas tick_eval = run_def animate_def tick_def physics_defs camera_constants Let_def lerp_def

theorem camera_stays_within_limits_witness:
  "MIN_Z \<le> cameraZ (state initialScene) \<and> cameraZ (state initialScene) \<le> MAX_Z
   \<and> cameraZ (state (run [(FIST, 0), (OPEN_PALM, 1), (NONE, 2)] initialScene)) = 20.1825536
   \<and> MIN_Z \<le> cameraZ (state (run [(FIST, 0), (OPEN_PALM, 1), (NONE, 2)] initialScene))
   \<and> cameraZ (state (run [(FIST, 0), (OPEN_PALM, 1), (NONE, 2)] initialScene)) \<le> MAX_Z
   \<and> cameraZ (moveCamera (applyFriction (applyForce FIST (state topScene)))) > MAX_Z
   \<and> cameraZ (state (tick FIST 0 topScene)) = MAX_Z
   \<and> velocityZ (state (tick FIST 0 topScene)) = 0"
proof -
  have lo: "MIN_Z \<le> cameraZ (state initialScene)"
    by (simp add: initialScene_def initialState_def camera_constants)
  have hi: "cameraZ (state initialScene) \<le> MAX_Z"
    by (simp add: initialScene_def initialState_def camera_constants)
  have over: "cameraZ (moveCamera (applyFriction (applyForce FIST (state topScene)))) > MAX_Z"
    by (simp add: topScene_def initialState_def physics_defs camera_constants)
  have val: "cameraZ (state (run [(FIST, 0), (OPEN_PALM, 1), (NONE, 2)] initialScene))
               = 20.1825536"
    by (simp add: initialScene_def initialState_def tick_eval)
  have top: "cameraZ (state (tick FIST 0 topScene)) = MAX_Z"
    by (simp add: topScene_def initialState_def tick_eval)
  note main = camera_stays_within_limits[OF lo hi, of "[(FIST, 0), (OPEN_PALM, 1), (NONE, 2)]"]
  have stop: "velocityZ (state (tick FIST 0 topScene)) = 0"
    using main over by blast
  have inside: "MIN_Z \<le> cameraZ (state (run [(FIST, 0), (OPEN_PALM, 1), (NONE, 2)] initialScene))
      \<and> cameraZ (state (run [(FIST, 0), (OPEN_PALM, 1), (NONE, 2)] initialScene)) \<le> MAX_Z"
    using main[THEN conjunct1, rule_format, of 3] by simp
  show ?thesis
    using lo hi over val top stop inside by simp
qed

subsection \<open>Sustained \<open>FIST\<close>\<close>

lemma cameraPhysics_cong:
  assumes "cameraZ a = cameraZ b" and "velocityZ a = velocityZ b"
  shows "cameraZ (cameraPhysics g a) = cameraZ (cameraPhysics g b)
       \<and> velocityZ (cameraPhysics g a) = velocityZ (cameraPhysics g b)"
  using assms by (simp add: physics_defs Let_def)

text \<open>A run under one gesture moves the camera as the iterated camera physics does.\<close>

lemma run_same_gesture:
  assumes "initialised sc"
  shows "cameraZ (state (run (map (Pair g) ts) sc))
           = cameraZ ((cameraPhysics g ^^ length ts) (state sc))
       \<and> velocityZ (state (run (map (Pair g) ts) sc))
           = velocityZ ((cameraPhysics g ^^ length ts) (state sc))
       \<and> initialised (run (map (Pair g) ts) sc)"
proof (induction ts rule: rev_induct)
  case Nil
  show ?case using assms by (simp add: run_Nil)
next
  case (snoc t ts)
  let ?sc = "run (map (Pair g) ts) sc"
  have step: "run (map (Pair g) (ts @ [t])) sc = tick g t ?sc"
    using snoc by (simp add: run_snoc animate_def)
  show ?case
    unfolding step
    using snoc cameraPhysics_cong[of "state ?sc" "(cameraPhysics g ^^ length ts) (state sc)" g]
    by (simp add: tick_cameraZ tick_velocityZ tick_initialised)
qed

lemma fist_23:
  "cameraZ ((cameraPhysics FIST ^^ 23) initialState) = MAX_Z
   \<and> velocityZ ((cameraPhysics FIST ^^ 23) initialState) = 0"
  by (simp add: eval_nat_numeral physics_defs initialState_def Let_def camera_constants)

lemma fist_at_MAX_Z:
  assumes "cameraZ st = MAX_Z \<and> velocityZ st = 0"
  shows "cameraZ (cameraPhysics FIST st) = MAX_Z \<and> velocityZ (cameraPhysics FIST st) = 0"
  using assms by (simp add: physics_defs Let_def camera_constants)

lemma fist_from_23:
  "cameraZ ((cameraPhysics FIST ^^ (m + 23)) initialState) = MAX_Z
   \<and> velocityZ ((cameraPhysics FIST ^^ (m + 23)) initialState) = 0"
proof (induction m)
  case 0
  show ?case using fist_23 by simp
next
  case (Suc m)
  have "(cameraPhysics FIST ^^ (Suc m + 23)) initialState
          = cameraPhysics FIST ((cameraPhysics FIST ^^ (m + 23)) initialState)"
    by (simp only: add_Suc funpow.simps o_apply)
  then show ?case using fist_at_MAX_Z[OF Suc] by (simp only:)
qed

lemma fist_step:
  assumes "0 \<le> velocityZ st" and "MIN_Z \<le> cameraZ st" and "cameraZ st \<le> MAX_Z"
  shows "cameraZ st \<le> cameraZ (cameraPhysics FIST st)
       \<and> (cameraZ st < MAX_Z \<longrightarrow> cameraZ st < cameraZ (cameraPhysics FIST st))
       \<and> 0 \<le> velocityZ (cameraPhysics FIST st)
       \<and> cameraZ (cameraPhysics FIST st) \<le> MAX_Z"
  using assms
  by (auto simp add: physics_defs Let_def camera_constants; argo)

lemma fist_invariant:
  "0 \<le> velocityZ ((cameraPhysics FIST ^^ n) initialState)
   \<and> DEFAULT_Z \<le> cameraZ ((cameraPhysics FIST ^^ n) initialState)
   \<and> cameraZ ((cameraPhysics FIST ^^ n) initialState) \<le> MAX_Z"
proof (induction n)
  case 0
  show ?case by (simp add: initialState_def camera_constants)
next
  case (Suc n)
  have "MIN_Z \<le> cameraZ ((cameraPhysics FIST ^^ n) initialState)"
    using Suc by (simp add: camera_constants)
  with Suc fist_step[of "(cameraPhysics FIST ^^ n) initialState"]
  show ?case by simp
qed

text \<open>
  Claim C1, as the code has it. The claim says that sustained \<open>FIST\<close> brings the camera
  distance down to \<open>MIN_Z\<close>; the code adds the positive constant to the velocity and
  then adds the velocity to the distance, so the distance grows. From the initial scene:
  after any 23 or more consecutive \<open>FIST\<close> passes the camera distance equals \<open>MAX_Z\<close>;
  each such pass adds \<open>PULL_ACCELERATION\<close>, which is positive, to the velocity; the
  distance never decreases from one pass to the next, and it strictly increases as long
  as it is below \<open>MAX_Z\<close>.
\<close>

theorem sustained_fist_reaches_MAX_Z:
  "(\<forall>ts. 23 \<le> length ts \<longrightarrow> cameraZ (state (run (map (Pair FIST) ts) initialScene)) = MAX_Z)
 \<and> (\<forall>st. velocityZ (applyForce FIST st) = velocityZ st + PULL_ACCELERATION)
 \<and> 0 < PULL_ACCELERATION
 \<and> (\<forall>ts t. cameraZ (state (run (map (Pair FIST) ts) initialScene))
              \<le> cameraZ (state (run (map (Pair FIST) (ts @ [t])) initialScene)))
 \<and> (\<forall>ts t. cameraZ (state (run (map (Pair FIST) ts) initialScene)) < MAX_Z
        \<longrightarrow> cameraZ (state (run (map (Pair FIST) ts) initialScene))
              < cameraZ (state (run (map (Pair FIST) (ts @ [t])) initialScene)))"
proof -
  have init: "initialised initialScene" and st: "state initialScene = initialState"
    by (simp_all add: initialScene_def)
  have cam: "cameraZ (state (run (map (Pair FIST) ts) initialScene))
               = cameraZ ((cameraPhysics FIST ^^ length ts) initialState)" for ts
    using run_same_gesture[OF init, of FIST ts] by (simp add: st)
  have cam': "cameraZ (state (run (map (Pair FIST) ts @ [(FIST, t)]) initialScene))
               = cameraZ ((cameraPhysics FIST ^^ Suc (length ts)) initialState)" for ts t
    using cam[of "ts @ [t]"] by simp
  have reach: "cameraZ (state (run (map (Pair FIST) ts) initialScene)) = MAX_Z"
    if "23 \<le> length ts" for ts :: "real list"
  proof -
    from that have "length ts = (length ts - 23) + 23" by simp
    then show ?thesis
      using fist_from_23[of "length ts - 23"] by (simp add: cam)
  qed
  have mono: "cameraZ ((cameraPhysics FIST ^^ n) initialState)
                 \<le> cameraZ ((cameraPhysics FIST ^^ Suc n) initialState)
             \<and> (cameraZ ((cameraPhysics FIST ^^ n) initialState) < MAX_Z \<longrightarrow>
                 cameraZ ((cameraPhysics FIST ^^ n) initialState)
                 < cameraZ ((cameraPhysics FIST ^^ Suc n) initialState))" for n
  proof -
    have "MIN_Z \<le> cameraZ ((cameraPhysics FIST ^^ n) initialState)"
      using fist_invariant[of n] by (simp add: camera_constants)
    with fist_invariant[of n] fist_step[of "(cameraPhysics FIST ^^ n) initialState"]
    show ?thesis by simp
  qed
  show ?thesis
    using reach mono
    by (simp add: cam cam' applyForce_def PULL_ACCELERATION_def)
qed

theorem sustained_fist_reaches_MAX_Z_witness:
  "23 \<le> length (replicate 23 (0::real))
   \<and> cameraZ (state (run (map (Pair FIST) (replicate 23 0)) initialScene)) = MAX_Z
   \<and> cameraZ (state (run (map (Pair FIST) []) initialScene)) < MAX_Z
   \<and> cameraZ (state (run (map (Pair FIST) []) initialScene))
       < cameraZ (state (run (map (Pair FIST) ([] @ [0])) initialScene))"
proof -
  note main = sustained_fist_reaches_MAX_Z
  have long: "23 \<le> length (replicate 23 (0::real))"
    by simp
  have far: "cameraZ (state (run (map (Pair FIST) (replicate 23 0)) initialScene)) = MAX_Z"
    using main[THEN conjunct1, rule_format, OF long] .
  have below: "cameraZ (state (run (map (Pair FIST) []) initialScene)) < MAX_Z"
    by (simp add: run_Nil initialScene_def initialState_def camera_constants)
  have grows: "cameraZ (state (run (map (Pair FIST) []) initialScene))
       < cameraZ (state (run (map (Pair FIST) ([] @ [0])) initialScene))"
    using main[THEN conjunct2, THEN conjunct2, THEN conjunct2, THEN conjunct2, rule_format,
        OF below, of 0] .
  show ?thesis
    using long far below grows by simp
qed

text \<open>
  The claim C1 as stated fails at the initial scene: one \<open>FIST\<close> pass takes the camera
  distance from 20 up to 20.096, and 23 passes take it to \<open>MAX_Z = 40\<close>, which is not
  \<open>MIN_Z = 5\<close>.
\<close>

theorem sustained_fist_counterexample:
  "cameraZ (state initialScene) = 20
   \<and> cameraZ (state (run [(FIST, 0)] initialScene)) = 20.096
   \<and> cameraZ (state initialScene) < cameraZ (state (run [(FIST, 0)] initialScene))
   \<and> cameraZ (state (run (replicate 23 (FIST, 0)) initialScene)) = 40
   \<and> MIN_Z = 5"
proof -
  have one: "cameraZ (state (run [(FIST, 0)] initialScene)) = 20.096"
    by (simp add: initialScene_def initialState_def tick_eval)
  have "replicate 23 (FIST, 0::real) = map (Pair FIST) (replicate 23 0)"
    by (simp add: map_replicate)
  then have many: "cameraZ (state (run (replicate 23 (FIST, 0)) initialScene)) = 40"
    using run_same_gesture[of initialScene FIST "replicate 23 0"] fist_23
    by (simp add: initialScene_def MAX_Z_def)
  show ?thesis
    using one many by (simp add: initialScene_def initialState_def camera_constants)
qed

section \<open>Properties of the particle effects\<close>

lemma lerp_toward: "lerp a b k = a + (b - a) * k"
  by (simp add: lerp_def algebra_simps)

subsection \<open>Scatter\<close>

lemma tick_scatterAmount:
  "scatterAmount (state (tick g t sc)) =
     lerp (scatterAmount (state sc))
       (if cameraZ (state (tick g t sc)) < 10 \<and> g = OPEN_PALM then 1 else 0) 0.05"
  by (simp add: tick_def Let_def cameraPhysics_fields)

lemma tick_flowAmount:
  "flowAmount (state (tick g t sc)) =
     lerp (flowAmount (state sc)) (if g = OPEN_PALM then 1 else 0) 0.015"
  by (simp add: tick_def Let_def cameraPhysics_fields)

text \<open>
  Claim C4, as the code has it. The claim says the scatter test reads the rendered
  (smoothed) camera distance; the code reads \<open>state.cameraZ\<close>, the target distance
  computed and clamped earlier in the same pass, not \<open>camera.position.z\<close>. In every
  pass the scatter amount moves by the factor 0.05 toward 1 exactly when that target
  distance is below 10 and the gesture is \<open>OPEN_PALM\<close>, and toward 0 otherwise; the flow
  amount moves by the factor 0.015 toward its own target, and 0.015 is smaller than 0.05.
\<close>

theorem scatter_follows_target_distance:
  "scatterAmount (state (tick g t sc)) =
     scatterAmount (state sc)
       + ((if cameraZ (state (tick g t sc)) < 10 \<and> g = OPEN_PALM then 1 else 0)
            - scatterAmount (state sc)) * 0.05
   \<and> flowAmount (state (tick g t sc)) =
     flowAmount (state sc) + ((if g = OPEN_PALM then 1 else 0) - flowAmount (state sc)) * 0.015
   \<and> (0.015 :: real) < 0.05"
  by (simp add: tick_scatterAmount tick_flowAmount lerp_toward)

theorem scatter_follows_target_distance_witness:
  "cameraZ (state (tick OPEN_PALM 0 nearScene)) < 10
   \<and> scatterAmount (state (tick OPEN_PALM 0 nearScene)) = 0.05
   \<and> flowAmount (state (tick OPEN_PALM 0 nearScene)) = 0.015"
proof -
  have z: "cameraZ (state (tick OPEN_PALM 0 nearScene)) = 8.952"
    by (simp add: nearScene_def initialState_def tick_eval)
  have old: "scatterAmount (state nearScene) = 0 \<and> flowAmount (state nearScene) = 0"
    by (simp add: nearScene_def initialState_def)
  show ?thesis
    using scatter_follows_target_distance[of OPEN_PALM 0 nearScene] z old by simp
qed

text \<open>
  The claim C4 as stated fails on \<open>nearScene\<close> under \<open>OPEN_PALM\<close>: the rendered camera
  distance is 20 before the pass and 18.8952 after it, so it is never below 10 and the
  claim has the scatter amount smoothed toward 0, which would leave it at 0. The target
  distance is 8.952 and the code moves the scatter amount to 0.05, toward 1.
\<close>

theorem scatter_rendered_distance_counterexample:
  "cameraPositionZ nearScene = 20
   \<and> cameraPositionZ (tick OPEN_PALM 0 nearScene) = 18.8952
   \<and> cameraZ (state (tick OPEN_PALM 0 nearScene)) = 8.952
   \<and> scatterAmount (state nearScene) = 0
   \<and> scatterAmount (state (tick OPEN_PALM 0 nearScene)) = 0.05
   \<and> scatterAmount (state (tick OPEN_PALM 0 nearScene)) \<noteq>
       lerp (scatterAmount (state nearScene))
         (if cameraPositionZ (tick OPEN_PALM 0 nearScene) < 10 \<and> OPEN_PALM = OPEN_PALM
          then 1 else 0) 0.05"
  by (simp add: nearScene_def initialState_def tick_eval)

text \<open>
  The same divergence arises in a run from the initial scene: in the 23rd consecutive
  \<open>OPEN_PALM\<close> pass the target distance falls below 10 while the rendered distance,
  which lags behind it, is still above 10, and the scatter amount is moved toward 1.
\<close>

lemma track_tick: "track (tick g t sc) = cameraTrack g (track sc)"
  by (simp add: track_def cameraTrack_def tick_def Let_def physics_defs initialState_def)

lemma track_run:
  assumes "initialised sc"
  shows "track (run (map (Pair g) ts) sc) = (cameraTrack g ^^ length ts) (track sc)
       \<and> initialised (run (map (Pair g) ts) sc)"
proof (induction ts rule: rev_induct)
  case Nil
  show ?case using assms by (simp add: run_Nil)
next
  case (snoc t ts)
  then show ?case
    by (simp add: run_snoc animate_def track_tick tick_initialised)
qed

lemma cameraTrack_eq:
  "cameraTrack g (z, v, c) =
     (let v1 = (if g = FIST then v + 0.1 else if g = OPEN_PALM then v - 0.05 else v) * 0.96;
          z1 = z + v1
      in if z1 > 40 then (40, 0, lerp c 40 0.1)
         else if z1 < 5 then (5, 0, lerp c 5 0.1)
         else (z1, v1, lerp c z1 0.1))"
  by (auto simp add: cameraTrack_def Let_def physics_defs initialState_def camera_constants;
      argo)

lemma open_palm_23:
  "(case (cameraTrack OPEN_PALM ^^ 23) (20, 0, 20) of (z, v, c) \<Rightarrow> z < 10 \<and> 10 < c)"
  by (simp add: eval_nat_numeral cameraTrack_eq Let_def lerp_def)

lemma scatter_divergence_reachable:
  "cameraZ (state (run (replicate 23 (OPEN_PALM, 0)) initialScene)) < 10
   \<and> 10 < cameraPositionZ (run (replicate 23 (OPEN_PALM, 0)) initialScene)
   \<and> scatterAmount (state (run (replicate 23 (OPEN_PALM, 0)) initialScene)) =
       lerp (scatterAmount (state (run (replicate 22 (OPEN_PALM, 0)) initialScene))) 1 0.05"
proof -
  let ?sc = "run (replicate 22 (OPEN_PALM, 0)) initialScene"
  have init: "initialised initialScene"
    by (simp add: initialScene_def)
  have t0: "track initialScene = (20, 0, 20)"
    by (simp add: track_def initialScene_def initialState_def camera_constants)
  have "track (run (replicate 23 (OPEN_PALM, 0)) initialScene)
          = (cameraTrack OPEN_PALM ^^ 23) (20, 0, 20)"
    using track_run[OF init, of OPEN_PALM "replicate 23 0"] by (simp add: t0)
  with open_palm_23
  have near: "cameraZ (state (run (replicate 23 (OPEN_PALM, 0)) initialScene)) < 10
      \<and> 10 < cameraPositionZ (run (replicate 23 (OPEN_PALM, 0)) initialScene)"
    by (auto simp add: track_def split: prod.splits)
  have "initialised ?sc"
    using track_run[OF init, of OPEN_PALM "replicate 22 0"] by simp
  moreover have "replicate 23 (OPEN_PALM, 0::real) = replicate 22 (OPEN_PALM, 0) @ [(OPEN_PALM, 0)]"
    using replicate_add[of 22 1 "(OPEN_PALM, 0::real)"] by simp
  ultimately have step: "run (replicate 23 (OPEN_PALM, 0)) initialScene = tick OPEN_PALM 0 ?sc"
    by (simp only: run_snoc animate_def if_False not_True_eq_False simp_thms)
  show ?thesis
    using near tick_scatterAmount[of OPEN_PALM 0 ?sc] by (simp add: step)
qed

subsection \<open>Scale\<close>

lemma particleTransform_scale:
  "scale (particleTransform g t st p) =
     (let s = (if g = OK_SIGN then scaleMultiplier st else 1) in (s, s, s))"
  by (simp add: particleTransform_def Let_def)

lemma writeParticle_length: "length (writeParticle g t st ms p) = length ms"
  by (simp add: writeParticle_def)

lemma writeParticle_slots:
  "k < length ms \<Longrightarrow>
     length (instanceMatrix (writeParticle g t st ms p ! k)) = length (instanceMatrix (ms ! k))"
  by (simp add: writeParticle_def setMatrixAt_def nth_list_update)

lemma writeParticle_slot:
  assumes "k < length ms" and "i < length (instanceMatrix (ms ! k))"
  shows "instanceMatrix (writeParticle g t st ms p ! k) ! i =
           (if meshIndex p = k \<and> instanceIndex p = i then Some (particleTransform g t st p)
            else instanceMatrix (ms ! k) ! i)"
  using assms by (simp add: writeParticle_def setMatrixAt_def nth_list_update)

lemma foldl_writeParticle_length:
  "length (foldl (writeParticle g t st) ms ps) = length ms"
  by (induction ps arbitrary: ms) (simp_all add: writeParticle_length)

lemma foldl_writeParticle_slots:
  "k < length ms \<Longrightarrow>
     length (instanceMatrix (foldl (writeParticle g t st) ms ps ! k))
       = length (instanceMatrix (ms ! k))"
  by (induction ps arbitrary: ms) (simp_all add: writeParticle_length writeParticle_slots)

text \<open>
  After the loop over the particles, the slot of every particle that has one holds a
  transform written in this pass, and every transform written in this pass has the same
  scale. (Two particles may share a slot; the later write wins, with the same scale.)
\<close>

lemma foldl_writeParticle_scale:
  assumes "p \<in> set ps" and "meshIndex p < length ms"
    and "instanceIndex p < length (instanceMatrix (ms ! meshIndex p))"
  shows "\<exists>tr. instanceMatrix (foldl (writeParticle g t st) ms ps ! meshIndex p) ! instanceIndex p
                = Some tr
            \<and> scale tr = (let s = (if g = OK_SIGN then scaleMultiplier st else 1) in (s, s, s))"
  using assms(1)
proof (induction ps rule: rev_induct)
  case Nil
  then show ?case by simp
next
  case (snoc q qs)
  let ?ms = "foldl (writeParticle g t st) ms qs"
  have k: "meshIndex p < length ?ms"
    using assms(2) by (simp add: foldl_writeParticle_length)
  have i: "instanceIndex p < length (instanceMatrix (?ms ! meshIndex p))"
    using assms(2,3) by (simp add: foldl_writeParticle_slots)
  show ?case
  proof (cases "meshIndex q = meshIndex p \<and> instanceIndex q = instanceIndex p")
    case True
    then show ?thesis
      using writeParticle_slot[OF k i, of g t st q]
      by (simp add: particleTransform_scale)
  next
    case False
    then have "p \<noteq> q" by auto
    with snoc.prems have "p \<in> set qs" by simp
    from snoc.IH[OF this] False show ?thesis
      using writeParticle_slot[OF k i, of g t st q] by (simp add: particleTransform_scale)
  qed
qed

lemma tick_particles: "particles (state (tick g t sc)) = particles (state sc)"
  by (simp add: tick_def Let_def cameraPhysics_fields)

lemma tick_scaleMultiplier:
  "scaleMultiplier (state (tick g t sc)) =
     lerp (scaleMultiplier (state sc)) (if g = OK_SIGN then OK_SCALE_MULTIPLIER else 1) 0.1"
  by (simp add: tick_def Let_def cameraPhysics_fields)

lemma tick_meshes:
  "meshes (tick g t sc) =
     map (\<lambda>mesh. mesh\<lparr>needsUpdate := True\<rparr>)
       (foldl (writeParticle g t (state (tick g t sc))) (meshes sc) (particles (state sc)))"
  by (simp add: tick_def Let_def cameraPhysics_fields)

text \<open>
  Claim C5. In every pass, the transform written into the slot of a particle has the
  uniform scale \<open>scaleMultiplier\<close> (the value smoothed in this very pass) when the
  gesture read at the start of the pass is \<open>OK_SIGN\<close>, and the uniform scale 1 for any
  other gesture; the smoothed value itself moves by the factor 0.1 toward
  \<open>OK_SCALE_MULTIPLIER\<close> or toward 1, so it need not be 1 when the scale written is.
\<close>

theorem written_scale_snaps_to_one:
  assumes "p \<in> set (particles (state sc))"
    and "meshIndex p < length (meshes sc)"
    and "instanceIndex p < length (instanceMatrix (meshes sc ! meshIndex p))"
  shows "(\<exists>tr. instanceMatrix (meshes (tick g t sc) ! meshIndex p) ! instanceIndex p = Some tr
            \<and> scale tr = (let s = (if g = OK_SIGN then scaleMultiplier (state (tick g t sc))
                                   else 1)
                          in (s, s, s)))
       \<and> scaleMultiplier (state (tick g t sc)) =
           scaleMultiplier (state sc)
             + ((if g = OK_SIGN then OK_SCALE_MULTIPLIER else 1) - scaleMultiplier (state sc)) * 0.1"
proof -
  have "\<exists>tr. instanceMatrix (meshes (tick g t sc) ! meshIndex p) ! instanceIndex p = Some tr
            \<and> scale tr = (let s = (if g = OK_SIGN then scaleMultiplier (state (tick g t sc))
                                   else 1)
                          in (s, s, s))"
    using foldl_writeParticle_scale[OF assms, of g t "state (tick g t sc)"] assms(2)
    by (simp add: tick_meshes foldl_writeParticle_length)
  then show ?thesis
    by (simp add: tick_scaleMultiplier lerp_toward)
qed

theorem written_scale_snaps_to_one_witness:
  "scaleMultiplier (state scaledScene) = 2.5
   \<and> scaleMultiplier (state (tick NONE 0 scaledScene)) = 2.35
   \<and> (\<exists>tr. instanceMatrix (meshes (tick NONE 0 scaledScene) ! 0) ! 0 = Some tr
          \<and> scale tr = (1, 1, 1))
   \<and> scaleMultiplier (state (tick OK_SIGN 0 scaledScene)) = 2.5
   \<and> (\<exists>tr. instanceMatrix (meshes (tick OK_SIGN 0 scaledScene) ! 0) ! 0 = Some tr
          \<and> scale tr = (2.5, 2.5, 2.5))"
proof -
  let ?p = "\<lparr>p_x = 1, p_y = 2, p_z = 0, p_vx = 0.1, p_vy = 0.2, p_vz = 0.25,
             meshIndex = 0, instanceIndex = 0\<rparr> :: ParticleData"
  have p: "?p \<in> set (particles (state scaledScene))"
    by (simp add: scaledScene_def initialState_def)
  have k: "meshIndex ?p < length (meshes scaledScene)"
    by (simp add: scaledScene_def)
  have i: "instanceIndex ?p < length (instanceMatrix (meshes scaledScene ! meshIndex ?p))"
    by (simp add: scaledScene_def)
  have old: "scaleMultiplier (state scaledScene) = 2.5"
    by (simp add: scaledScene_def initialState_def)
  note none = written_scale_snaps_to_one[OF p k i, of NONE 0]
  note ok = written_scale_snaps_to_one[OF p k i, of OK_SIGN 0]
  have m1: "scaleMultiplier (state (tick NONE 0 scaledScene)) = 2.35"
    using none old by simp
  have m2: "scaleMultiplier (state (tick OK_SIGN 0 scaledScene)) = 2.5"
    using ok old by (simp add: OK_SCALE_MULTIPLIER_def)
  have w1: "\<exists>tr. instanceMatrix (meshes (tick NONE 0 scaledScene) ! 0) ! 0 = Some tr
          \<and> scale tr = (1, 1, 1)"
    using none by simp
  have w2: "\<exists>tr. instanceMatrix (meshes (tick OK_SIGN 0 scaledScene) ! 0) ! 0 = Some tr
          \<and> scale tr = (2.5, 2.5, 2.5)"
  proof -
    have sel: "meshIndex ?p = 0" "instanceIndex ?p = 0"
      by simp_all
    show ?thesis
      using ok[THEN conjunct1] unfolding m2 sel by (simp only: Let_def simp_thms if_True)
  qed
  show ?thesis
    using old m1 w1 m2 w2 by (simp only: simp_thms)
qed

section \<open>Properties of the particle field builder\<close>

text \<open>\<open>Math.random()\<close> returns a value in \<open>[0, 1)\<close>, so the group index is a valid one.\<close>

lemma random_index_in_range:
  assumes "0 \<le> r" and "r < 1" and "0 < n"
  shows "0 \<le> \<lfloor>r * real n\<rfloor> \<and> nat \<lfloor>r * real n\<rfloor> < n"
proof -
  have "r * real n < real n"
    using assms by simp
  then have "\<lfloor>r * real n\<rfloor> < int n"
    by (simp add: floor_less_iff)
  moreover have "0 \<le> \<lfloor>r * real n\<rfloor>"
    using assms by simp
  ultimately show ?thesis by linarith
qed

lemma slotsDense_iff:
  "slotsDense n ppm final =
     (length ppm = n
      \<and> (\<forall>q \<in> set final. meshIndex q < n)
      \<and> (\<forall>g < n. map instanceIndex (filter (\<lambda>q. meshIndex q = g) final)
                    = [0..<length (ppm ! g)]))"
  by (auto simp add: slotsDense_def list_all_iff)

lemma slotsDense_empty: "slotsDense (length textures) (map (\<lambda>_. []) textures) []"
  by (simp add: slotsDense_iff)

lemma slotsDense_push:
  assumes "slotsDense n ppm final" and "mi < n"
  shows "slotsDense n (ppm[mi := ppm ! mi @ [p]])
           (final @ [\<lparr>p_x = a, p_y = b, p_z = c, p_vx = d, p_vy = e, p_vz = f,
                      meshIndex = mi,
                      instanceIndex = length (ppm[mi := ppm ! mi @ [p]] ! mi) - 1\<rparr>])"
  using assms by (auto simp add: slotsDense_iff nth_list_update)

lemma distribute_dense:
  assumes "\<forall>k. 0 \<le> random k \<and> random k < 1" and "0 < n"
    and "slotsDense n ppm final"
  shows "\<exists>ppm' final'. distribute random n k ps (ppm, final) = Inr (ppm', final')
           \<and> slotsDense n ppm' final' \<and> length final' = length final + length ps"
  using assms(3)
proof (induction ps arbitrary: k ppm final)
  case Nil
  then show ?case by simp
next
  case (Cons p ps)
  let ?i = "\<lfloor>random k * real n\<rfloor>"
  have i: "0 \<le> ?i \<and> nat ?i < n"
    using assms(1,2) random_index_in_range[of "random k" n] by simp
  have len: "length ppm = n"
    using Cons.prems by (simp add: slotsDense_iff)
  let ?ppm = "ppm[nat ?i := ppm ! nat ?i @ [p]]"
  let ?q = "\<lparr>p_x = p_x p, p_y = p_y p, p_z = p_z p, p_vx = p_vx p, p_vy = p_vy p, p_vz = p_vz p,
             meshIndex = nat ?i, instanceIndex = length (?ppm ! nat ?i) - 1\<rparr>"
  have "slotsDense n ?ppm (final @ [?q])"
    using slotsDense_push[OF Cons.prems, of "nat ?i"] i by simp
  from Cons.IH[OF this, of "Suc k"] i len show ?case
    by (simp add: Let_def)
qed

lemma texturesToUse_nonempty: "0 < length (texturesToUse uploadedTextures)"
  by (simp add: texturesToUse_def)

text \<open>
  Claim C8. For every list of uploaded textures (the empty list is replaced by the one
  placeholder, so there are always \<open>n \<ge> 1\<close> groups) and every sequence of values that
  \<open>Math.random()\<close> may return, the rebuild succeeds; every particle is in one of the
  \<open>n\<close> groups; and in every group the instance indices of its particles, in the order
  of creation, are exactly \<open>0, 1, \<dots>, count - 1\<close>, where \<open>count\<close> is the size of the
  group (\<open>particlesPerMesh[g].length\<close>, the count its mesh is created with). So no
  index is skipped and none is used twice within a group.
\<close>

theorem instance_indices_dense:
  assumes "\<forall>k. 0 \<le> random k \<and> random k < 1" and "initialised sc"
  shows "\<exists>particlesPerMesh finalParticles.
           distribute random (length (texturesToUse uploadedTextures)) 0 rawParticles
               (map (\<lambda>_. []) (texturesToUse uploadedTextures), [])
             = Inr (particlesPerMesh, finalParticles)
         \<and> rebuild uploadedTextures rawParticles random sc
             = Inr (sc\<lparr>state := (state sc)\<lparr>particles := finalParticles\<rparr>,
                       meshes := createMeshes (texturesToUse uploadedTextures) particlesPerMesh\<rparr>)
         \<and> length finalParticles = length rawParticles
         \<and> (\<forall>q \<in> set finalParticles. meshIndex q < length (texturesToUse uploadedTextures))
         \<and> (\<forall>g < length (texturesToUse uploadedTextures).
               map instanceIndex (filter (\<lambda>q. meshIndex q = g) finalParticles)
                 = [0..<length (particlesPerMesh ! g)]
             \<and> distinct (map instanceIndex (filter (\<lambda>q. meshIndex q = g) finalParticles)))"
proof -
  let ?ts = "texturesToUse uploadedTextures"
  obtain ppm final where d: "distribute random (length ?ts) 0 rawParticles (map (\<lambda>_. []) ?ts, [])
      = Inr (ppm, final)" and dense: "slotsDense (length ?ts) ppm final"
      and len: "length final = length rawParticles"
    using distribute_dense[OF assms(1) texturesToUse_nonempty[of uploadedTextures]
        slotsDense_empty[of ?ts], of 0 rawParticles]
    by auto
  have r: "rebuild uploadedTextures rawParticles random sc
             = Inr (sc\<lparr>state := (state sc)\<lparr>particles := final\<rparr>,
                       meshes := createMeshes ?ts ppm\<rparr>)"
    using assms(2) d by (simp add: rebuild_def bindE_def Let_def)
  have "\<forall>g < length ?ts. distinct (map instanceIndex (filter (\<lambda>q. meshIndex q = g) final))"
    using dense by (simp add: slotsDense_iff)
  with d r len dense show ?thesis
    by (simp add: slotsDense_iff)
qed

theorem instance_indices_dense_witness:
  "(\<forall>k. 0 \<le> alternating k \<and> alternating k < 1)
   \<and> initialised initialScene
   \<and> (\<exists>sc. rebuild [''a'', ''b''] seeds alternating initialScene = Inr sc
         \<and> map (\<lambda>q. (meshIndex q, instanceIndex q)) (particles (state sc))
             = [(0, 0), (1, 0), (0, 1)]
         \<and> map count (meshes sc) = [2, 1])"
proof -
  have rnd: "\<forall>k. 0 \<le> alternating k \<and> alternating k < 1"
    by (simp add: alternating_def)
  have init: "initialised initialScene"
    by (simp add: initialScene_def)
  have run: "distribute alternating 2 0 seeds ([[], []], []) =
      Inr ([[seeds ! 0, seeds ! 2], [seeds ! 1]],
           [\<lparr>p_x = 0, p_y = 0, p_z = 0, p_vx = 0.1, p_vy = 0.1, p_vz = 0.1,
              meshIndex = 0, instanceIndex = 0\<rparr>,
            \<lparr>p_x = 1, p_y = 0, p_z = 0, p_vx = 0.2, p_vy = 0.1, p_vz = 0.1,
              meshIndex = 1, instanceIndex = 0\<rparr>,
            \<lparr>p_x = 2, p_y = 0, p_z = 0, p_vx = 0.1, p_vy = 0.2, p_vz = 0.1,
              meshIndex = 0, instanceIndex = 1\<rparr>])"
    by (simp add: seeds_def alternating_def Let_def)
  from instance_indices_dense[OF rnd init, of "[''a'', ''b'']" seeds]
  obtain ppm final where
    d: "distribute alternating (length (texturesToUse [''a'', ''b''])) 0 seeds
          (map (\<lambda>_. []) (texturesToUse [''a'', ''b'']), []) = Inr (ppm, final)"
    and r: "rebuild [''a'', ''b''] seeds alternating initialScene
          = Inr (initialScene\<lparr>state := (state initialScene)\<lparr>particles := final\<rparr>,
                   meshes := createMeshes (texturesToUse [''a'', ''b'']) ppm\<rparr>)"
    by blast
  have tx: "texturesToUse [''a'', ''b''] = [''a'', ''b'']"
    by (simp add: texturesToUse_def)
  have two: "length [''a'', ''b''] = (2::nat)"
    by simp
  from d have "distribute alternating 2 0 seeds ([[], []], []) = Inr (ppm, final)"
    unfolding tx by (simp only: two list.map)
  with run have "ppm = [[seeds ! 0, seeds ! 2], [seeds ! 1]]"
    and "map (\<lambda>q. (meshIndex q, instanceIndex q)) final = [(0, 0), (1, 0), (0, 1)]"
    by auto
  with r have "\<exists>sc. rebuild [''a'', ''b''] seeds alternating initialScene = Inr sc
         \<and> map (\<lambda>q. (meshIndex q, instanceIndex q)) (particles (state sc))
             = [(0, 0), (1, 0), (0, 1)]
         \<and> map count (meshes sc) = [2, 1]"
    by (simp add: createMeshes_def texturesToUse_def enumerate_eq_zip Let_def)
  with rnd init show ?thesis by simp
qed

end
